theory Spec2Isabelle
  imports Complex_Main
begin

section \<open>Values of the host language\<close>

text \<open>
  A JavaScript number is \<open>NaN\<close>, one of the two infinities, or a finite double.  A finite
  double is represented by the rational it denotes; the arithmetic below rounds every
  result to a double.  The sign of zero is not modelled.  A cell of a decoded sheet is a string, a number or \<open>null\<close>; reading
  a row beyond its last cell gives \<open>undefined\<close>.  A row of the decoded grid may itself be
  null or undefined (\<open>None\<close>).  Strings are lists of 8-bit characters.
\<close>

datatype jsnum = NaN | PosInf | NegInf | Fin rat

datatype cell = Undefined | Null | Num jsnum | Str string

type_synonym row = "cell list option"

type_synonym table = "row list"

text \<open>A call into code outside this module either throws (with a message) or returns.\<close>

datatype 'a outcome = Threw string | Returned 'a

fun isFinite :: "jsnum \<Rightarrow> bool" where
  "isFinite (Fin _) = True"
| "isFinite _ = False"

subsection \<open>Strings and the regular expressions of the module\<close>

definition is_space :: "char \<Rightarrow> bool" where
  \<comment> \<open>white space and line terminators, as \<open>trim\<close> and \<open>\s\<close> see them\<close>
  "is_space c = (c \<in> set [CHR 0x09, CHR 0x0A, CHR 0x0B, CHR 0x0C, CHR 0x0D, CHR 0x20, CHR 0xA0])"

definition is_line_terminator :: "char \<Rightarrow> bool" where
  "is_line_terminator c = (c = CHR 0x0A \<or> c = CHR 0x0D)"

definition trim :: "string \<Rightarrow> string" where
  "trim s = rev (dropWhile is_space (rev (dropWhile is_space s)))"

definition strip_ws :: "string \<Rightarrow> string" where
  \<comment> \<open>\<open>s.replace(/\s+/g, "")\<close>\<close>
  "strip_ws s = filter (\<lambda>c. \<not> is_space c) s"

definition remove_commas :: "string \<Rightarrow> string" where
  \<comment> \<open>\<open>s.replace(/,/g, "")\<close>\<close>
  "remove_commas s = filter (\<lambda>c. c \<noteq> CHR '','') s"

definition toLower :: "char \<Rightarrow> char" where
  "toLower c =
     (case map_of (zip ''ABCDEFGHIJKLMNOPQRSTUVWXYZ'' ''abcdefghijklmnopqrstuvwxyz'') c of
        Some l \<Rightarrow> l
      | None \<Rightarrow> c)"

definition lower :: "string \<Rightarrow> string" where
  "lower s = map toLower s"

fun is_prefix :: "string \<Rightarrow> string \<Rightarrow> bool" where
  "is_prefix [] s = True"
| "is_prefix (p # ps) [] = False"
| "is_prefix (p # ps) (c # cs) = (p = c \<and> is_prefix ps cs)"

fun contains :: "string \<Rightarrow> string \<Rightarrow> bool" where
  \<comment> \<open>\<open>contains p s\<close>: the literal \<open>p\<close> occurs somewhere in \<open>s\<close>\<close>
  "contains p [] = is_prefix p []"
| "contains p (c # cs) = (is_prefix p (c # cs) \<or> contains p cs)"

fun dot_star_then :: "string \<Rightarrow> string \<Rightarrow> bool" where
  \<comment> \<open>\<open>.*p\<close> matched at the start of the string: \<open>.\<close> skips no line terminator\<close>
  "dot_star_then p [] = is_prefix p []"
| "dot_star_then p (c # cs) =
     (is_prefix p (c # cs) \<or> (\<not> is_line_terminator c \<and> dot_star_then p cs))"

fun baseball_then_data :: "string \<Rightarrow> bool" where
  "baseball_then_data [] = False"
| "baseball_then_data (c # cs) =
     ((is_prefix ''baseball'' (c # cs) \<and> dot_star_then ''data'' (drop 8 (c # cs)))
      \<or> baseball_then_data cs)"

definition re_baseball_data :: "string \<Rightarrow> bool" where
  \<comment> \<open>\<open>/baseball.*data/i\<close>\<close>
  "re_baseball_data s = baseball_then_data (lower s)"

definition re_baseball :: "string \<Rightarrow> bool" where
  \<comment> \<open>\<open>/baseball/i\<close>\<close>
  "re_baseball s = contains ''baseball'' (lower s)"

definition re_time :: "string \<Rightarrow> bool" where
  \<comment> \<open>\<open>/^time$/i\<close>\<close>
  "re_time s = (lower s = ''time'')"

subsection \<open>Numeric parsing of a cell\<close>

text \<open>
  \<open>Number\<close> applied to a string is the host's own conversion; it is a parameter
  (\<open>N\<close>) of every function that reaches it.
\<close>

fun toNumber :: "(string \<Rightarrow> jsnum) \<Rightarrow> cell \<Rightarrow> jsnum" where
  "toNumber N (Num n) = n"
| "toNumber N Null = NaN"
| "toNumber N Undefined = NaN"
| "toNumber N (Str s) = (let n = N (remove_commas (trim s)) in if isFinite n then n else NaN)"

definition cellAt :: "cell list \<Rightarrow> int \<Rightarrow> cell" where
  \<comment> \<open>\<open>row[i]\<close>: \<open>undefined\<close> outside the row\<close>
  "cellAt cs i = (if 0 \<le> i \<and> nat i < length cs then cs ! nat i else Undefined)"

section \<open>Static data\<close>

datatype Role = Pitcher | Hitter

fun NEEDED_MAP :: "Role \<Rightarrow> (string \<times> string) list" where
  "NEEDED_MAP Pitcher =
    [(''Pelvis Twist Velocity'', ''/Calc/Pelvis/Twist/Velocity_x''),
     (''Shoulder Twist Velocity'', ''/Calc/Shoulder/Twist/Velocity_x''),
     (''Elbow Flexion/Extension Velocity, dominant'', ''/Calc/Elbow/Dominant/FlexionExtension/Velocity_x''),
     (''Shoulder Rotation Velocity, dominant'', ''/Calc/Shoulder/Dominant/Rotation/Velocity_x''),
     (''Shoulder Horizontal, dominant'', ''/Calc/Shoulder/Dominant/Horizontal_x''),
     (''Shoulder Elevation, dominant'', ''/Calc/Shoulder/Dominant/Elevation_x''),
     (''Shoulder Rotation, dominant'', ''/Calc/Shoulder/Dominant/Rotation_x''),
     (''Elbow Flexion/Extension, dominant'', ''/Calc/Elbow/Dominant/FlexionExtension_x''),
     (''Trunk Tilt left/right'', ''/Calc/Trunk/Tilt/LeftRight_x''),
     (''Shoulder Twist'', ''/Calc/Shoulder/Twist_x''),
     (''Pelvis Twist'', ''/Calc/Pelvis/Twist_x''),
     (''Trunk Separation'', ''/Calc/Trunk/Separation_x''),
     (''Knee Flexion/Extension, lead'', ''/Calc/Knee/Lead/FlexionExtension_x''),
     (''Center of Gravity Velocity, Y'', ''/Calc/CenterOfGravity/VelocityY_x'')]"
| "NEEDED_MAP Hitter =
    [(''Shoulder Twist Velocity'', ''/Calc/Shoulder/Twist/Velocity_x''),
     (''Pelvis Twist Velocity'', ''/Calc/Pelvis/Twist/Velocity_x''),
     (''Elbow Dominant Flexion/Extension Velocity'', ''/Calc/Elbow/Dominant/FlexionExtension/Velocity_x''),
     (''Trunk Separation'', ''/Calc/Trunk/Separation_x''),
     (''Shoulder Other Horizontal'', ''/Calc/Shoulder/Other/Horizontal_x''),
     (''Trunk Tilt Left/Right'', ''/Calc/Trunk/Tilt/LeftRight_x''),
     (''Hip Plant Internal/External'', ''/Calc/Hip/Plant/InternalExternal_x''),
     (''Shoulder Twist'', ''/Calc/Shoulder/Twist_x''),
     (''Hip Lead Internal/External'', ''/Calc/Hip/Lead/InternalExternal_x''),
     (''Trunk Tilt Forwards/Backwards'', ''/Calc/Trunk/Tilt/ForwardsBackwards_x''),
     (''Shoulder Dominant Horizontal'', ''/Calc/Shoulder/Dominant/Horizontal_x''),
     (''Shoulder Dominant Rotation'', ''/Calc/Shoulder/Dominant/Rotation_x''),
     (''Pelvis Tilt Left/Right'', ''/Calc/Pelvis/Tilt/LeftRight_x''),
     (''Center of Gravity Velocity Z'', ''/Calc/CenterOfGravity/VelocityZ_x'')]"

definition HEADER_ALIASES :: "(string \<times> string) list" where
  "HEADER_ALIASES =
    [(''/Calc/Elbow/Dominant/Flexion/Extension/Velocity_x'', ''/Calc/Elbow/Dominant/FlexionExtension/Velocity_x''),
     (''/Calc/Elbow/Dominant/Flexion/Extenstion/Velocity_x'', ''/Calc/Elbow/Dominant/FlexionExtension/Velocity_x''),
     (''/Calc/Elbow/Dominant/Flexion/Extension_x'', ''/Calc/Elbow/Dominant/FlexionExtension_x''),
     (''/Calc/Wrist/Dominant/Flexion/Extension/Velocity_x'', ''/Calc/Wrist/Dominant/FlexionExtension/Velocity_x''),
     (''/Calc/Knee/Lead/Flexion/Extension_x'', ''/Calc/Knee/Lead/FlexionExtension_x'')]"

section \<open>Column index and column resolver\<close>

text \<open>
  The column index is a \<open>Map\<close> from header strings to positions.  A \<open>Map\<close> iterates in
  the order of first insertion, so it is an association list with distinct keys:
  \<open>mapSet\<close> overwrites the value of a key already present and appends a new key.
\<close>

type_synonym colIndex = "(string \<times> nat) list"

fun mapSet :: "colIndex \<Rightarrow> string \<Rightarrow> nat \<Rightarrow> colIndex" where
  "mapSet [] k v = [(k, v)]"
| "mapSet ((k', v') # m) k v = (if k' = k then (k, v) # m else (k', v') # mapSet m k v)"

fun strippedScan :: "colIndex \<Rightarrow> string \<Rightarrow> int" where
  \<comment> \<open>the loop over \<open>colIndex.entries()\<close>, and the final \<open>return -1\<close>\<close>
  "strippedScan [] k = - 1"
| "strippedScan ((h, i) # es) k =
     (if strip_ws h = strip_ws k then int i else strippedScan es k)"

definition getColIndexWithAliases :: "colIndex \<Rightarrow> string \<Rightarrow> int" where
  "getColIndexWithAliases ci k =
     (case map_of ci k of
        Some i \<Rightarrow> int i
      | None \<Rightarrow>
          (case map_of HEADER_ALIASES k of
             None \<Rightarrow> strippedScan ci k
           | Some alias \<Rightarrow>
               (if alias \<noteq> [] \<and> map_of ci alias \<noteq> None then int (the (map_of ci alias))
                else strippedScan ci k)))"

section \<open>Needed-metrics extractor\<close>

record Series =
  label :: string
  key :: string
  "values" :: "jsnum list"

record NeededMetrics =
  time :: "jsnum list"
  series :: "Series list"

text \<open>\<open>Ok pitcher hitter warnings\<close> is the \<open>ok: true\<close> result, \<open>Fail why warnings\<close> the other.\<close>

datatype NeededParseResult =
    Ok NeededMetrics NeededMetrics "string list"
  | Fail string "string list"

record 'ws WorkBook =
  SheetNames :: "string list"
  Sheets :: "string \<Rightarrow> 'ws option"

definition rowOrEmpty :: "row \<Rightarrow> cell list" where
  \<comment> \<open>\<open>table[i] ?? []\<close>\<close>
  "rowOrEmpty r = (case r of None \<Rightarrow> [] | Some cs \<Rightarrow> cs)"

definition tableAt :: "table \<Rightarrow> nat \<Rightarrow> row" where
  "tableAt t i = (if i < length t then t ! i else None)"

definition trimCell :: "cell \<Rightarrow> cell" where
  "trimCell v = (case v of Str s \<Rightarrow> Str (trim s) | _ \<Rightarrow> v)"

definition isTimeCell :: "cell \<Rightarrow> bool" where
  "isTimeCell c = (case c of Str s \<Rightarrow> re_time (trim s) | _ \<Rightarrow> False)"

fun findHeaderLoop :: "nat \<Rightarrow> row list \<Rightarrow> (nat \<times> cell list) option" where
  "findHeaderLoop i [] = None"
| "findHeaderLoop i (r # rs) =
     (let cs = rowOrEmpty r
      in if list_ex isTimeCell cs then Some (i, map trimCell cs)
         else findHeaderLoop (Suc i) rs)"

definition findHeaderRowWithTime :: "table \<Rightarrow> nat \<times> cell list" where
  "findHeaderRowWithTime t =
     (let scanUpto = min (length t) 20
      in case findHeaderLoop 0 (take scanUpto t) of
           Some found \<Rightarrow> found
         | None \<Rightarrow> (0, map trimCell (rowOrEmpty (tableAt t 0))))"

fun colIndexLoop :: "nat \<Rightarrow> cell list \<Rightarrow> colIndex \<Rightarrow> colIndex" where
  \<comment> \<open>\<open>header.forEach((h, i) => { if (typeof h === "string") colIndex.set(h.trim(), i) })\<close>\<close>
  "colIndexLoop i [] m = m"
| "colIndexLoop i (h # hs) m =
     colIndexLoop (Suc i) hs (case h of Str s \<Rightarrow> mapSet m (trim s) i | _ \<Rightarrow> m)"

definition finiteOrNaN :: "jsnum \<Rightarrow> jsnum" where
  \<comment> \<open>\<open>Number.isFinite(v) ? v : NaN\<close>\<close>
  "finiteOrNaN v = (if isFinite v then v else NaN)"

definition timeOfRow :: "(string \<Rightarrow> jsnum) \<Rightarrow> int \<Rightarrow> cell list \<Rightarrow> jsnum" where
  "timeOfRow N timeIdx cs =
     finiteOrNaN (if timeIdx \<ge> 0 then toNumber N (cellAt cs timeIdx) else NaN)"

definition valueOfRow :: "(string \<Rightarrow> jsnum) \<Rightarrow> colIndex \<Rightarrow> string \<Rightarrow> cell list \<Rightarrow> jsnum" where
  "valueOfRow N ci k cs =
     (let idx = getColIndexWithAliases ci k
      in finiteOrNaN (if idx \<ge> 0 then toNumber N (cellAt cs idx) else NaN))"

definition pushValues :: "(string \<Rightarrow> jsnum) \<Rightarrow> colIndex \<Rightarrow> cell list \<Rightarrow> Series list \<Rightarrow> Series list" where
  \<comment> \<open>\<open>series.forEach((s) => { ...; s.values.push(...) })\<close>\<close>
  "pushValues N ci cs ss = map (\<lambda>s. s\<lparr>values := values s @ [valueOfRow N ci (key s) cs]\<rparr>) ss"

text \<open>
  The loop of \<open>buildRole\<close> over the rows after the header row.  Its state is the shared
  \<open>time\<close> array and the role's series.
\<close>

fun buildRoleLoop ::
  "(string \<Rightarrow> jsnum) \<Rightarrow> colIndex \<Rightarrow> int \<Rightarrow> Role \<Rightarrow> row list
    \<Rightarrow> jsnum list \<times> Series list \<Rightarrow> jsnum list \<times> Series list" where
  "buildRoleLoop N ci timeIdx role [] st = st"
| "buildRoleLoop N ci timeIdx role (r # rs) (tm, ss) =
     (case r of
        None \<Rightarrow> buildRoleLoop N ci timeIdx role rs (tm, ss)
      | Some cs \<Rightarrow>
          if cs = [] then buildRoleLoop N ci timeIdx role rs (tm, ss)
          else buildRoleLoop N ci timeIdx role rs
                 (if role = Pitcher then tm @ [timeOfRow N timeIdx cs] else tm,
                  pushValues N ci cs ss))"

definition missingWarnings :: "colIndex \<Rightarrow> Series list \<Rightarrow> string list \<Rightarrow> string list" where
  "missingWarnings ci ss ws =
     fold (\<lambda>s w. if getColIndexWithAliases ci (key s) < 0
                 then w @ [''Missing column in sheet: '' @ key s] else w) ss ws"

text \<open>
  \<open>buildRole\<close> closes over the table, the header row index, the column index, the index
  of the time column, and the two arrays it mutates: \<open>time\<close> and \<open>warnings\<close>.  Here it
  takes the two arrays and returns them updated, next to the role's series.
\<close>

definition buildRole ::
  "(string \<Rightarrow> jsnum) \<Rightarrow> table \<Rightarrow> nat \<Rightarrow> colIndex \<Rightarrow> int \<Rightarrow> Role
    \<Rightarrow> jsnum list \<Rightarrow> string list \<Rightarrow> Series list \<times> jsnum list \<times> string list" where
  "buildRole N t headerRowIndex ci timeIdx role tm ws =
     (let spec = NEEDED_MAP role;
          series0 = map (\<lambda>(l, k). \<lparr>label = l, key = k, values = []\<rparr>) spec;
          (tm', ss) = buildRoleLoop N ci timeIdx role (drop (headerRowIndex + 1) t) (tm, series0);
          ws' = missingWarnings ci ss ws
      in (ss, tm', ws'))"

definition timeWarning :: string where
  "timeWarning = ''Could not find 'Time' column; times will be NaN.''"

text \<open>
  The part of \<open>parseWorkbookToNeededMetrics\<close> after the table has been decoded and found
  to have a row.  Both roles' results hold the one \<open>time\<close> array, so both read its final
  content.
\<close>

definition extractNeeded :: "(string \<Rightarrow> jsnum) \<Rightarrow> table \<Rightarrow> NeededParseResult" where
  "extractNeeded N t =
     (let (headerRowIndex, header) = findHeaderRowWithTime t;
          ci = colIndexLoop 0 header [];
          timeIdx = getColIndexWithAliases ci ''Time'';
          ws0 = (if timeIdx < 0 then [timeWarning] else []);
          (pitcherSeries, tm1, ws1) = buildRole N t headerRowIndex ci timeIdx Pitcher [] ws0;
          (hitterSeries, tm2, ws2) = buildRole N t headerRowIndex ci timeIdx Hitter tm1 ws1
      in if pitcherSeries = [] \<and> hitterSeries = []
         then Fail ''No needed metrics could be extracted.'' ws2
         else Ok \<lparr>time = tm2, series = pitcherSeries\<rparr> \<lparr>time = tm2, series = hitterSeries\<rparr> ws2)"

definition selectSheetName :: "string list \<Rightarrow> string option" where
  \<comment> \<open>\<open>find(/baseball.*data/i) ?? find(/baseball/i) ?? SheetNames[0]\<close>\<close>
  "selectSheetName names =
     (case find re_baseball_data names of
        Some n \<Rightarrow> Some n
      | None \<Rightarrow>
          (case find re_baseball names of
             Some n \<Rightarrow> Some n
           | None \<Rightarrow> (case names of [] \<Rightarrow> None | n # _ \<Rightarrow> Some n)))"

definition apostrophe :: string where
  "apostrophe = [CHR 0x27]"

text \<open>
  The body of the \<open>try\<close> block.  \<open>rd\<close> is the library's \<open>read\<close>, \<open>s2j\<close> its
  \<open>sheet_to_json\<close> with the options the module passes; either may throw.
\<close>

definition parseWorkbookToNeededMetrics_try ::
  "('buf \<Rightarrow> 'ws WorkBook outcome) \<Rightarrow> ('ws \<Rightarrow> table outcome) \<Rightarrow> (string \<Rightarrow> jsnum)
    \<Rightarrow> 'buf \<Rightarrow> NeededParseResult outcome" where
  "parseWorkbookToNeededMetrics_try rd s2j N buf =
     (case rd buf of
        Threw e \<Rightarrow> Threw e
      | Returned wb \<Rightarrow>
          (case selectSheetName (SheetNames wb) of
             None \<Rightarrow> Returned (Fail ''No sheets found in workbook.'' [])
           | Some sheetName \<Rightarrow>
               if sheetName = [] then Returned (Fail ''No sheets found in workbook.'' [])
               else
                 (case Sheets wb sheetName of
                    None \<Rightarrow>
                      Returned (Fail (''Sheet '' @ apostrophe @ sheetName @ apostrophe
                                        @ '' is empty or unreadable.'') [])
                  | Some ws \<Rightarrow>
                      (case s2j ws of
                         Threw e \<Rightarrow> Threw e
                       | Returned t \<Rightarrow>
                           if t = []
                           then Returned (Fail (''Sheet '' @ apostrophe @ sheetName @ apostrophe
                                                  @ '' has no data.'') [])
                           else Returned (extractNeeded N t)))))"

definition parseWorkbookToNeededMetrics ::
  "('buf \<Rightarrow> 'ws WorkBook outcome) \<Rightarrow> ('ws \<Rightarrow> table outcome) \<Rightarrow> (string \<Rightarrow> jsnum)
    \<Rightarrow> 'buf \<Rightarrow> NeededParseResult outcome" where
  \<comment> \<open>\<open>try { ... } catch (err) { return { ok: false, why: String(err?.message ?? err), warnings: [] } }\<close>\<close>
  "parseWorkbookToNeededMetrics rd s2j N buf =
     (case parseWorkbookToNeededMetrics_try rd s2j N buf of
        Threw e \<Rightarrow> Returned (Fail e [])
      | Returned r \<Rightarrow> Returned r)"

definition parseExcelToNeededMetrics ::
  "('file \<Rightarrow> 'buf outcome) \<Rightarrow> ('buf \<Rightarrow> 'ws WorkBook outcome) \<Rightarrow> ('ws \<Rightarrow> table outcome)
    \<Rightarrow> (string \<Rightarrow> jsnum) \<Rightarrow> 'file \<Rightarrow> NeededParseResult outcome" where
  \<comment> \<open>\<open>arrayBuffer\<close> is the file's own reader; its rejection is caught like any throw\<close>
  "parseExcelToNeededMetrics arrayBuffer rd s2j N file =
     (case (case arrayBuffer file of
              Threw e \<Rightarrow> Threw e
            | Returned buf \<Rightarrow> parseWorkbookToNeededMetrics rd s2j N buf) of
        Threw e \<Rightarrow> Returned (Fail e [])
      | Returned r \<Rightarrow> Returned r)"


section \<open>Arithmetic of the host language\<close>

text \<open>
  The numbers are IEEE 754 binary64 values and every operation returns the correctly
  rounded result.  \<open>roundDouble x\<close> is the double nearest to the rational \<open>x\<close>, the even
  significand winning a tie: 53 significant bits (the integer \<open>m\<close> below), exponents from
  -1022 (below it the spacing stays \<open>2 ^ -1074\<close>) to 1023, and infinity once the rounded
  value reaches \<open>2 ^ 1024\<close>.
\<close>

function bitLength :: "int \<Rightarrow> int" where
  \<comment> \<open>the number of binary digits of a positive integer\<close>
  "bitLength n = (if n \<le> 0 then 0 else bitLength (n div 2) + 1)"
  by pat_completeness auto
termination
  by (relation "measure nat") auto

declare bitLength.simps [simp del]

definition pow2 :: "int \<Rightarrow> rat" where
  "pow2 e = (if e \<ge> 0 then 2 ^ nat e else 1 / 2 ^ nat (- e))"

definition ilog2 :: "rat \<Rightarrow> int" where
  \<comment> \<open>for \<open>a > 0\<close>, the integer \<open>e\<close> with \<open>2 ^ e \<le> a < 2 ^ (e + 1)\<close>\<close>
  "ilog2 a = (if a \<ge> 1 then bitLength \<lfloor>a\<rfloor> - 1
              else - bitLength (\<lceil>1 / a\<rceil> - 1))"

definition roundHalfEven :: "rat \<Rightarrow> int" where
  "roundHalfEven m =
     (let f = \<lfloor>m\<rfloor>; d = m - of_int f
      in if d < 1 / 2 then f else if d > 1 / 2 then f + 1 else if even f then f else f + 1)"

definition roundDouble :: "rat \<Rightarrow> jsnum" where
  "roundDouble x =
     (if x = 0 then Fin 0
      else
        (let a = \<bar>x\<bar>;
             e = max (ilog2 a) (- 1022)
         in if e > 1023 then (if x > 0 then PosInf else NegInf)
            else
              (let ulp = pow2 (e - 52);
                   m = roundHalfEven (a / ulp)
               in if e = 1023 \<and> m \<ge> 2 ^ 53 then (if x > 0 then PosInf else NegInf)
                  else Fin (if x > 0 then of_int m * ulp else - (of_int m * ulp)))))"

fun js_gt :: "jsnum \<Rightarrow> jsnum \<Rightarrow> bool" where
  \<comment> \<open>\<open>a > b\<close>: false as soon as one side is \<open>NaN\<close>\<close>
  "js_gt (Fin a) (Fin b) = (a > b)"
| "js_gt PosInf (Fin b) = True"
| "js_gt PosInf NegInf = True"
| "js_gt (Fin a) NegInf = True"
| "js_gt _ _ = False"

fun js_abs :: "jsnum \<Rightarrow> jsnum" where
  \<comment> \<open>\<open>Math.abs\<close>\<close>
  "js_abs NaN = NaN"
| "js_abs PosInf = PosInf"
| "js_abs NegInf = PosInf"
| "js_abs (Fin a) = Fin \<bar>a\<bar>"

fun js_add :: "jsnum \<Rightarrow> jsnum \<Rightarrow> jsnum" where
  "js_add NaN _ = NaN"
| "js_add _ NaN = NaN"
| "js_add (Fin a) (Fin b) = roundDouble (a + b)"
| "js_add (Fin a) PosInf = PosInf"
| "js_add (Fin a) NegInf = NegInf"
| "js_add PosInf NegInf = NaN"
| "js_add PosInf _ = PosInf"
| "js_add NegInf PosInf = NaN"
| "js_add NegInf _ = NegInf"

fun js_div :: "jsnum \<Rightarrow> jsnum \<Rightarrow> jsnum" where
  \<comment> \<open>\<open>a / b\<close>; a zero divisor is taken as positive\<close>
  "js_div NaN _ = NaN"
| "js_div _ NaN = NaN"
| "js_div (Fin a) (Fin b) =
     (if b = 0 then (if a = 0 then NaN else if a > 0 then PosInf else NegInf)
      else roundDouble (a / b))"
| "js_div (Fin a) _ = Fin 0"
| "js_div PosInf (Fin b) = (if b < 0 then NegInf else PosInf)"
| "js_div NegInf (Fin b) = (if b < 0 then PosInf else NegInf)"
| "js_div _ _ = NaN"

fun js_sub :: "jsnum \<Rightarrow> jsnum \<Rightarrow> jsnum" where
  "js_sub NaN _ = NaN"
| "js_sub _ NaN = NaN"
| "js_sub (Fin a) (Fin b) = roundDouble (a - b)"
| "js_sub (Fin a) PosInf = NegInf"
| "js_sub (Fin a) NegInf = PosInf"
| "js_sub PosInf PosInf = NaN"
| "js_sub PosInf _ = PosInf"
| "js_sub NegInf NegInf = NaN"
| "js_sub NegInf _ = NegInf"

definition js_truthy :: "jsnum \<Rightarrow> bool" where
  "js_truthy n = (n \<noteq> NaN \<and> n \<noteq> Fin 0)"

definition truthyKey :: "string option \<Rightarrow> string option" where
  \<comment> \<open>a key that passes a truth test: found, and not the empty string\<close>
  "truthyKey k = (case k of Some (c # cs) \<Rightarrow> Some (c # cs) | _ \<Rightarrow> None)"

section \<open>Generic header detector\<close>

definition re_t_time_timestamp :: "string \<Rightarrow> bool" where
  \<comment> \<open>\<open>/^(t|time|timestamp)$/i\<close>\<close>
  "re_t_time_timestamp s = (lower s = ''t'' \<or> lower s = ''time'' \<or> lower s = ''timestamp'')"

definition re_frame :: "string \<Rightarrow> bool" where
  \<comment> \<open>\<open>/frame/i\<close>\<close>
  "re_frame s = contains ''frame'' (lower s)"

definition re_frames_exact :: "string \<Rightarrow> bool" where
  \<comment> \<open>\<open>/^frame(s)?$/i\<close>\<close>
  "re_frames_exact s = (lower s = ''frame'' \<or> lower s = ''frames'')"

definition re_timestamp_exact :: "string \<Rightarrow> bool" where
  \<comment> \<open>\<open>/^timestamp$/i\<close>\<close>
  "re_timestamp_exact s = (lower s = ''timestamp'')"

definition re_t_time :: "string \<Rightarrow> bool" where
  \<comment> \<open>\<open>/^(t|time)$/i\<close>\<close>
  "re_t_time s = (lower s = ''t'' \<or> lower s = ''time'')"

definition re_timestamp :: "string \<Rightarrow> bool" where
  \<comment> \<open>\<open>/timestamp/i\<close>\<close>
  "re_timestamp s = contains ''timestamp'' (lower s)"

definition re_ms :: "string \<Rightarrow> bool" where
  \<comment> \<open>\<open>/(ms|millisecond)/i\<close>\<close>
  "re_ms s = (contains ''ms'' (lower s) \<or> contains ''millisecond'' (lower s))"

definition re_frame_index :: "string \<Rightarrow> bool" where
  \<comment> \<open>\<open>/frame ?index/i\<close>\<close>
  "re_frame_index s = (contains ''frameindex'' (lower s) \<or> contains ''frame index'' (lower s))"

definition isNonEmptyString :: "cell \<Rightarrow> bool" where
  "isNonEmptyString c = (case c of Str s \<Rightarrow> trim s \<noteq> [] | _ \<Rightarrow> False)"

definition rowScore :: "cell list \<Rightarrow> int" where
  "rowScore cs =
     (let nonEmpty = int (length (filter isNonEmptyString cs));
          hasTime = list_ex (\<lambda>c. case c of Str s \<Rightarrow> re_t_time_timestamp (trim s) | _ \<Rightarrow> False) cs;
          hasFrame = list_ex (\<lambda>c. case c of Str s \<Rightarrow> re_frame (trim s) | _ \<Rightarrow> False) cs;
          score = nonEmpty + (if hasTime then 3 else 0) + (if hasFrame then 2 else 0)
      in if nonEmpty \<le> 1 then score - 3 else score)"

fun detectLoop :: "nat \<Rightarrow> row list \<Rightarrow> nat \<times> int \<Rightarrow> nat \<times> int" where
  \<comment> \<open>the state is \<open>(bestIdx, bestScore)\<close>\<close>
  "detectLoop i [] best = best"
| "detectLoop i (r # rs) (bestIdx, bestScore) =
     (let score = rowScore (rowOrEmpty r)
      in detectLoop (Suc i) rs (if score > bestScore then (i, score) else (bestIdx, bestScore)))"

definition detectBestIdx :: "table \<Rightarrow> nat" where
  "detectBestIdx t =
     (let scanUpto = min (length t) 20
      in fst (detectLoop 0 (take scanUpto t) (0, - 1)))"

definition cellToString :: "(jsnum \<Rightarrow> string) \<Rightarrow> cell \<Rightarrow> string" where
  \<comment> \<open>\<open>v == null ? "" : String(v)\<close>; \<open>S\<close> is the host's conversion of a number\<close>
  "cellToString S v = (case v of Undefined \<Rightarrow> [] | Null \<Rightarrow> [] | Num n \<Rightarrow> S n | Str s \<Rightarrow> s)"

definition canonicalHeader :: "string \<Rightarrow> string" where
  "canonicalHeader h =
     (let s = trim h
      in if re_frames_exact s then ''Frame''
         else if re_timestamp_exact s then ''Timestamp''
         else if re_t_time s then ''Time''
         else s)"

definition digit :: "nat \<Rightarrow> char" where
  "digit d = ''0123456789'' ! d"

function decimal :: "nat \<Rightarrow> string" where
  "decimal n = (if n < 10 then [digit n] else decimal (n div 10) @ [digit (n mod 10)])"
  by pat_completeness auto
termination
  by (relation "measure id") auto

declare decimal.simps [simp del]

fun dedupeLoop :: "(string \<Rightarrow> nat option) \<Rightarrow> string list \<Rightarrow> string list" where
  \<comment> \<open>the first argument is the map \<open>seen\<close>\<close>
  "dedupeLoop seen [] = []"
| "dedupeLoop seen (h # hs) =
     (if h = [] then h # dedupeLoop seen hs
      else
        (let base = h;
             count = (case seen base of None \<Rightarrow> 0 | Some c \<Rightarrow> c) + 1
         in (if count = 1 then base else base @ '' ('' @ decimal count @ '')'')
            # dedupeLoop (seen(base \<mapsto> count)) hs))"

definition dedupeHeaders :: "string list \<Rightarrow> string list" where
  "dedupeHeaders headers = dedupeLoop Map.empty headers"

definition detectHeaderAndExtract :: "(jsnum \<Rightarrow> string) \<Rightarrow> table \<Rightarrow> string list \<times> row list" where
  "detectHeaderAndExtract S t =
     (let bestIdx = detectBestIdx t;
          rawHeaders = map (cellToString S) (rowOrEmpty (tableAt t bestIdx));
          headers = dedupeHeaders (map canonicalHeader rawHeaders);
          dataRows = drop (bestIdx + 1) t
      in (headers, dataRows))"

section \<open>Generic row normalizer\<close>

text \<open>
  An objectified row is the list of its properties in the order \<open>Object.keys\<close> gives
  them; a property that is absent reads as \<open>undefined\<close>.  An output row is a map from
  keys to numbers.  \<open>Date.parse\<close> is the host's; it is the parameter \<open>DP\<close>.
\<close>

type_synonym obj = "(string \<times> cell) list"

type_synonym Row = "string \<Rightarrow> jsnum option"

definition getProp :: "obj \<Rightarrow> string \<Rightarrow> cell" where
  "getProp r k = (case map_of r k of Some c \<Rightarrow> c | None \<Rightarrow> Undefined)"

fun num :: "(string \<Rightarrow> jsnum) \<Rightarrow> cell \<Rightarrow> jsnum" where
  "num N (Num n) = n"
| "num N Null = NaN"
| "num N Undefined = NaN"
| "num N (Str s) = (let n = N (remove_commas (trim s)) in if isFinite n then n else NaN)"

definition coerceNumber :: "(string \<Rightarrow> jsnum) \<Rightarrow> cell \<Rightarrow> jsnum" where
  \<comment> \<open>\<open>typeof x === "number" ? x : Number(x)\<close>\<close>
  "coerceNumber N x = (case x of Num n \<Rightarrow> n | Str s \<Rightarrow> N s | Null \<Rightarrow> Fin 0 | Undefined \<Rightarrow> NaN)"

fun finiteVals :: "jsnum list \<Rightarrow> rat list" where
  "finiteVals [] = []"
| "finiteVals (Fin x # ns) = x # finiteVals ns"
| "finiteVals (_ # ns) = finiteVals ns"

fun sumDeltas :: "jsnum \<Rightarrow> rat list \<Rightarrow> jsnum" where
  \<comment> \<open>\<open>for (i = 1; i < vals.length; i++) sum += Math.abs(vals[i] - vals[i - 1])\<close>\<close>
  "sumDeltas acc (a # b # vs) =
     sumDeltas (js_add acc (js_abs (js_sub (Fin b) (Fin a)))) (b # vs)"
| "sumDeltas acc _ = acc"

definition averageDelta :: "(string \<Rightarrow> jsnum) \<Rightarrow> obj list \<Rightarrow> string \<Rightarrow> jsnum" where
  "averageDelta N rows k =
     (let vals = finiteVals (map (\<lambda>r. coerceNumber N (getProp r k)) rows)
      in if length vals < 2 then NaN
         else js_div (sumDeltas (Fin 0) vals) (Fin (of_nat (length vals - 1))))"

definition timeKeyOf :: "string list \<Rightarrow> string option" where
  \<comment> \<open>\<open>keys.find(/^(t|time)$/i) || keys.find(/timestamp/i)\<close>\<close>
  "timeKeyOf keys =
     (case truthyKey (find re_t_time keys) of
        Some k \<Rightarrow> Some k
      | None \<Rightarrow> find re_timestamp keys)"

definition msKeyOf :: "string list \<Rightarrow> string option" where
  "msKeyOf keys = find re_ms keys"

definition frameKeyOf :: "string list \<Rightarrow> string option" where
  "frameKeyOf keys = find (\<lambda>k. re_frames_exact k \<or> re_frame_index k) keys"

definition parseTimestamp :: "(string \<Rightarrow> jsnum) \<Rightarrow> cell \<Rightarrow> jsnum" where
  \<comment> \<open>\<open>typeof v === "number" ? v : Date.parse(String(v))\<close>\<close>
  "parseTimestamp DP v =
     (case v of Num n \<Rightarrow> n | Str s \<Rightarrow> DP s | Null \<Rightarrow> DP ''null'' | Undefined \<Rightarrow> DP ''undefined'')"

definition ts0Of :: "(string \<Rightarrow> jsnum) \<Rightarrow> string list \<Rightarrow> obj list \<Rightarrow> jsnum" where
  "ts0Of DP keys rowsRaw =
     (if truthyKey (timeKeyOf keys) = None \<and> list_ex re_timestamp keys
      then
        (case find re_timestamp keys of
           None \<Rightarrow> Fin 0
         | Some k \<Rightarrow>
             (let first = (case find (\<lambda>r. getProp r k \<noteq> Null \<and> getProp r k \<noteq> Undefined) rowsRaw of
                             Some r \<Rightarrow> getProp r k
                           | None \<Rightarrow> Undefined);
                  p = parseTimestamp DP first
              in if isFinite p then p else Fin 0))
      else Fin 0)"

text \<open>The time of one row: the \<open>if\<close> chain that assigns \<open>tSec\<close> in the loop of \<open>normalizeSheet\<close>.\<close>

definition rowTime ::
  "(string \<Rightarrow> jsnum) \<Rightarrow> (string \<Rightarrow> jsnum) \<Rightarrow> jsnum \<Rightarrow> obj list \<Rightarrow> string list \<Rightarrow> obj \<Rightarrow> jsnum" where
  "rowTime N DP fpsGuess rowsRaw keys r =
     (case truthyKey (timeKeyOf keys) of
        Some timeKey \<Rightarrow>
          (let n = num N (getProp r timeKey);
               looksMs = (truthyKey (msKeyOf keys) \<noteq> None
                          \<or> (isFinite n \<and> js_gt n (Fin 50)
                              \<and> js_gt (averageDelta N rowsRaw timeKey) (Fin 10)))
           in if looksMs then js_div n (Fin 1000) else n)
      | None \<Rightarrow>
          (case truthyKey (frameKeyOf keys) of
             Some frameKey \<Rightarrow>
               (let f = num N (getProp r frameKey);
                    fps = (if js_truthy fpsGuess \<and> isFinite fpsGuess then fpsGuess else Fin 120)
                in if isFinite f then js_div f fps else NaN)
           | None \<Rightarrow>
               (if list_ex re_timestamp keys then
                  (case find re_timestamp keys of
                     None \<Rightarrow> NaN
                   | Some k \<Rightarrow>
                       (let p = parseTimestamp DP (getProp r k)
                        in if isFinite p
                           then js_div (js_sub p (ts0Of DP keys rowsRaw)) (Fin 1000)
                           else NaN))
                else NaN)))"

definition copyFields :: "(string \<Rightarrow> jsnum) \<Rightarrow> string list \<Rightarrow> obj \<Rightarrow> Row \<Rightarrow> Row" where
  \<comment> \<open>the loop \<open>for (const k of keys)\<close> that copies the other columns\<close>
  "copyFields N keys r row0 =
     fold (\<lambda>k row.
             if Some k = timeKeyOf keys \<or> Some k = msKeyOf keys \<or> Some k = frameKeyOf keys then row
             else (let n = num N (getProp r k) in if isFinite n then row(k \<mapsto> n) else row))
          keys row0"

definition normalizeSheet ::
  "(string \<Rightarrow> jsnum) \<Rightarrow> (string \<Rightarrow> jsnum) \<Rightarrow> obj list \<Rightarrow> jsnum \<Rightarrow> Row list" where
  "normalizeSheet N DP rowsRaw fpsGuess =
     (case rowsRaw of
        [] \<Rightarrow> []
      | r0 # _ \<Rightarrow>
          (let keys = map fst r0
           in map (\<lambda>r. copyFields N keys r (Map.empty(''t'' \<mapsto> rowTime N DP fpsGuess rowsRaw keys r)))
                  rowsRaw))"

section \<open>Auxiliary notions for the statements\<close>

text \<open>
  \<open>liveRows\<close> are the rows that the loop of \<open>buildRole\<close> does not skip: those that are
  neither null nor without cells.  \<open>seriesFor\<close> is the series list of a role once those rows
  have been read.  \<open>scoreOf\<close> is the score the generic detector gives a row of the grid.
  The remaining definitions are the concrete inputs of the examples.
\<close>

definition liveRows :: "row list \<Rightarrow> cell list list" where
  "liveRows rs = map rowOrEmpty (filter (\<lambda>r. r \<noteq> None \<and> r \<noteq> Some []) rs)"

definition seriesFor :: "(string \<Rightarrow> jsnum) \<Rightarrow> colIndex \<Rightarrow> cell list list \<Rightarrow> Role \<Rightarrow> Series list" where
  "seriesFor N ci live role =
     map (\<lambda>(l, k). \<lparr>label = l, key = k, values = map (valueOfRow N ci k) live\<rparr>) (NEEDED_MAP role)"

definition oneSheetWorkbook :: "string \<Rightarrow> 'ws \<Rightarrow> 'ws WorkBook" where
  "oneSheetWorkbook name ws = \<lparr>SheetNames = [name], Sheets = (\<lambda>n. if n = name then Some ws else None)\<rparr>"

definition demoTable :: table where
  "demoTable =
     [Some [Str ''Name''],
      Some [Str ''Time'', Str ''x''],
      Some [Num (Fin 0), Num (Fin (3 / 2))],
      None,
      Some [],
      Some [Null, Null],
      Some [Num (Fin 1), Num (Fin (5 / 2))]]"

definition demoIndex :: colIndex where
  "demoIndex = [(''Time'', 0), (''a b'', 1), (''/Calc/Knee/Lead/FlexionExtension_x'', 2), (''ab'', 3)]"

definition untimedTable :: table where
  "untimedTable = [Some [Str ''x''], Some [Num (Fin 1)], Some [Num (Fin 2)]]"

definition scoreOf :: "row \<Rightarrow> int" where
  "scoreOf r = rowScore (rowOrEmpty r)"

definition titleTable :: table where
  "titleTable = [Some [Num (Fin 1)], Some [Str ''Speed''], Some [Num (Fin 2)]]"

definition clashTable :: table where
  "clashTable =
     [Some [Str ''a'', Str ''a'', Str ''a (2)''],
      Some [Num (Fin 1), Num (Fin 2), Num (Fin 3)]]"

definition stampRows :: "obj list" where
  "stampRows =
     [[(''Timestamp'', Num (Fin 1000)), (''x'', Num (Fin 1))],
      [(''Timestamp'', Num (Fin 2000)), (''x'', Num (Fin 2))]]"

definition msRows :: "obj list" where
  "msRows =
     [[(''Time'', Num (Fin 0)), (''x'', Num (Fin 5))],
      [(''Time'', Num (Fin 120)), (''x'', Num (Fin 6))],
      [(''Time'', Num (Fin 240)), (''x'', Num (Fin 7))],
      [(''Time'', Num (Fin 360)), (''x'', Num (Fin 8))]]"

definition blankRows :: "obj list" where
  "blankRows =
     [[(''Time'', Null), (''x'', Num (Fin 1))],
      [(''Time'', Num (Fin 1000)), (''x'', Num (Fin 2))],
      [(''Time'', Num (Fin 1005)), (''x'', Num (Fin 3))]]"

section \<open>The build loop\<close>

lemma liveRows_simps:
  "liveRows [] = []"
  "liveRows (None # rs) = liveRows rs"
  "liveRows (Some [] # rs) = liveRows rs"
  "cs \<noteq> [] \<Longrightarrow> liveRows (Some cs # rs) = cs # liveRows rs"
  by (simp_all add: liveRows_def rowOrEmpty_def)

lemma buildRoleLoop_time:
  "fst (buildRoleLoop N ci ti role rs (tm, ss)) =
     (if role = Pitcher then tm @ map (timeOfRow N ti) (liveRows rs) else tm)"
proof (induction rs arbitrary: tm ss)
  case Nil
  show ?case by (simp add: liveRows_simps)
next
  case (Cons r rs)
  show ?case
  proof (cases r)
    case None
    then show ?thesis using Cons.IH by (simp add: liveRows_simps)
  next
    case (Some cs)
    then show ?thesis using Cons.IH by (cases "cs = []") (simp_all add: liveRows_simps)
  qed
qed

lemma buildRoleLoop_series:
  "snd (buildRoleLoop N ci ti role rs (tm, ss)) =
     map (\<lambda>s. s\<lparr>values := values s @ map (valueOfRow N ci (key s)) (liveRows rs)\<rparr>) ss"
proof (induction rs arbitrary: tm ss)
  case Nil
  show ?case by (simp add: liveRows_simps)
next
  case (Cons r rs)
  show ?case
  proof (cases r)
    case None
    then show ?thesis using Cons.IH by (simp add: liveRows_simps)
  next
    case (Some cs)
    then show ?thesis using Cons.IH
      by (cases "cs = []") (simp_all add: liveRows_simps pushValues_def)
  qed
qed

lemma buildRole_eq:
  "buildRole N t i ci ti role tm ws =
     (seriesFor N ci (liveRows (drop (Suc i) t)) role,
      (if role = Pitcher then tm @ map (timeOfRow N ti) (liveRows (drop (Suc i) t)) else tm),
      missingWarnings ci (seriesFor N ci (liveRows (drop (Suc i) t)) role) ws)"
proof -
  let ?s0 = "map (\<lambda>(l, k). \<lparr>label = l, key = k, values = []\<rparr>) (NEEDED_MAP role)"
  let ?res = "buildRoleLoop N ci ti role (drop (Suc i) t) (tm, ?s0)"
  have s: "snd ?res = seriesFor N ci (liveRows (drop (Suc i) t)) role"
    unfolding buildRoleLoop_series seriesFor_def by (simp add: case_prod_beta)
  have f: "fst ?res = (if role = Pitcher then tm @ map (timeOfRow N ti) (liveRows (drop (Suc i) t)) else tm)"
    by (rule buildRoleLoop_time)
  show ?thesis
    unfolding buildRole_def Let_def using s f by (simp add: case_prod_beta)
qed

lemma length_seriesFor: "length (seriesFor N ci live role) = 14"
  by (cases role) (simp_all add: seriesFor_def)

lemma seriesFor_nonempty: "seriesFor N ci live role \<noteq> []"
  using length_seriesFor [of N ci live role] by auto

lemma extractNeeded_eq:
  "extractNeeded N t =
     (let i = fst (findHeaderRowWithTime t);
          ci = colIndexLoop 0 (snd (findHeaderRowWithTime t)) [];
          ti = getColIndexWithAliases ci ''Time'';
          live = liveRows (drop (Suc i) t);
          tm = map (timeOfRow N ti) live
      in Ok \<lparr>time = tm, series = seriesFor N ci live Pitcher\<rparr>
            \<lparr>time = tm, series = seriesFor N ci live Hitter\<rparr>
            (missingWarnings ci (seriesFor N ci live Hitter)
              (missingWarnings ci (seriesFor N ci live Pitcher)
                (if ti < 0 then [timeWarning] else []))))"
  unfolding extractNeeded_def Let_def buildRole_eq
  by (simp add: case_prod_beta seriesFor_nonempty)

lemma parse_decoded:
  assumes "rd buf = Returned wb" "selectSheetName (SheetNames wb) = Some n" "n \<noteq> []"
    "Sheets wb n = Some ws" "s2j ws = Returned t" "t \<noteq> []"
  shows "parseWorkbookToNeededMetrics rd s2j N buf = Returned (extractNeeded N t)"
  using assms by (simp add: parseWorkbookToNeededMetrics_def parseWorkbookToNeededMetrics_try_def)

lemma parse_Ok_D:
  assumes "parseWorkbookToNeededMetrics rd s2j N buf = Returned (Ok p h w)"
  shows "\<exists>t. t \<noteq> [] \<and> extractNeeded N t = Ok p h w"
  using assms
  by (auto simp: parseWorkbookToNeededMetrics_def parseWorkbookToNeededMetrics_try_def
      split: outcome.splits option.splits if_splits)

lemma extractNeeded_Ok_D:
  assumes "extractNeeded N t = Ok p h w"
  shows "time p = map (timeOfRow N (getColIndexWithAliases (colIndexLoop 0 (snd (findHeaderRowWithTime t)) []) ''Time''))
                    (liveRows (drop (Suc (fst (findHeaderRowWithTime t))) t))"
    and "time h = time p"
    and "series p = seriesFor N (colIndexLoop 0 (snd (findHeaderRowWithTime t)) [])
                      (liveRows (drop (Suc (fst (findHeaderRowWithTime t))) t)) Pitcher"
    and "series h = seriesFor N (colIndexLoop 0 (snd (findHeaderRowWithTime t)) [])
                      (liveRows (drop (Suc (fst (findHeaderRowWithTime t))) t)) Hitter"
    and "w = missingWarnings (colIndexLoop 0 (snd (findHeaderRowWithTime t)) [])
               (seriesFor N (colIndexLoop 0 (snd (findHeaderRowWithTime t)) [])
                      (liveRows (drop (Suc (fst (findHeaderRowWithTime t))) t)) Hitter)
               (missingWarnings (colIndexLoop 0 (snd (findHeaderRowWithTime t)) [])
                 (seriesFor N (colIndexLoop 0 (snd (findHeaderRowWithTime t)) [])
                      (liveRows (drop (Suc (fst (findHeaderRowWithTime t))) t)) Pitcher)
                 (if getColIndexWithAliases (colIndexLoop 0 (snd (findHeaderRowWithTime t)) []) ''Time'' < 0
                  then [timeWarning] else []))"
  using assms unfolding extractNeeded_eq Let_def by auto

lemma extractNeeded_is_Ok: "\<exists>p h w. extractNeeded N t = Ok p h w"
  unfolding extractNeeded_eq Let_def by blast

lemma seriesFor_values:
  "s \<in> set (seriesFor N ci live role) \<Longrightarrow> values s = map (valueOfRow N ci (key s)) live"
  by (auto simp: seriesFor_def)

lemma missingWarnings_keeps: "x \<in> set ws \<Longrightarrow> x \<in> set (missingWarnings ci ss ws)"
proof -
  have "\<And>ws. x \<in> set ws \<Longrightarrow>
      x \<in> set (fold (\<lambda>s w. if getColIndexWithAliases ci (key s) < 0
                 then w @ [''Missing column in sheet: '' @ key s] else w) ss ws)"
    by (induction ss) auto
  then show "x \<in> set ws \<Longrightarrow> x \<in> set (missingWarnings ci ss ws)"
    by (simp add: missingWarnings_def)
qed

lemma buildRole_Hitter_time: "fst (snd (buildRole N t i ci ti Hitter tm ws)) = tm"
  by (simp add: buildRole_eq)

section \<open>Aligned series and the shared time sequence\<close>

text \<open>
  Claim C1.  Whenever \<open>parseWorkbookToNeededMetrics\<close> returns an \<open>ok: true\<close> result, every
  series of the pitcher and of the hitter has as many values as the time sequence has
  entries, the two roles carry the same time sequence, and building the second role
  (the hitter) leaves the time sequence as the first role's pass left it.
\<close>

theorem needed_metrics_aligned:
  assumes "parseWorkbookToNeededMetrics rd s2j N buf = Returned (Ok p h w)"
  shows "list_all (\<lambda>s. length (values s) = length (time p)) (series p)
       \<and> list_all (\<lambda>s. length (values s) = length (time h)) (series h)
       \<and> time p = time h
       \<and> (\<forall>t i ci ti tm ws. fst (snd (buildRole N t i ci ti Hitter tm ws)) = tm)"
proof -
  obtain t where t: "extractNeeded N t = Ok p h w"
    using parse_Ok_D [OF assms] by blast
  note d = extractNeeded_Ok_D [OF t]
  have "list_all (\<lambda>s. length (values s) = length (time p)) (series p)"
    unfolding list_all_iff d(1) d(3) by (auto dest: seriesFor_values)
  moreover have "list_all (\<lambda>s. length (values s) = length (time h)) (series h)"
    unfolding list_all_iff d(2) d(1) d(4) by (auto dest: seriesFor_values)
  ultimately show ?thesis
    using d(2) buildRole_Hitter_time by simp
qed

text \<open>
  A workbook with the single sheet \<open>Sheet1\<close>: a title row, a header row with a time
  column, and five rows below it of which one is null, one has no cell and one has only
  null cells.
\<close>

lemma selectSheetName_Sheet1: "selectSheetName [''Sheet1''] = Some ''Sheet1''"
  by code_simp

lemma demo_decoded:
  "parseWorkbookToNeededMetrics (\<lambda>_::unit. Returned (oneSheetWorkbook ''Sheet1'' demoTable)) Returned N ()
     = Returned (extractNeeded N demoTable)"
  by (rule parse_decoded [where wb = "oneSheetWorkbook ''Sheet1'' demoTable" and n = "''Sheet1''" and ws = demoTable])
     (simp_all add: oneSheetWorkbook_def selectSheetName_Sheet1 demoTable_def)

lemma demo_header: "findHeaderRowWithTime demoTable = (1, [Str ''Time'', Str ''x''])"
  by code_simp

lemma demo_colIndex: "colIndexLoop 0 [Str ''Time'', Str ''x''] [] = [(''Time'', 0), (''x'', 1)]"
  by code_simp

lemma demo_timeIdx: "getColIndexWithAliases [(''Time'', 0), (''x'', 1)] ''Time'' = 0"
  by code_simp

lemma demo_live:
  "liveRows (drop (Suc 1) demoTable) =
     [[Num (Fin 0), Num (Fin (3 / 2))], [Null, Null], [Num (Fin 1), Num (Fin (5 / 2))]]"
  by code_simp

lemma demo_time:
  "map (timeOfRow N 0) [[Num (Fin 0), Num (Fin (3 / 2))], [Null, Null], [Num (Fin 1), Num (Fin (5 / 2))]]
     = [Fin 0, NaN, Fin 1]"
  by (simp add: timeOfRow_def cellAt_def finiteOrNaN_def)

theorem needed_metrics_aligned_witness:
  "\<exists>p h w.
     parseWorkbookToNeededMetrics (\<lambda>_::unit. Returned (oneSheetWorkbook ''Sheet1'' demoTable))
       Returned (\<lambda>_. NaN) () = Returned (Ok p h w)
     \<and> time p = [Fin 0, NaN, Fin 1] \<and> time h = [Fin 0, NaN, Fin 1]
     \<and> list_all (\<lambda>s. length (values s) = 3) (series p)
     \<and> list_all (\<lambda>s. length (values s) = 3) (series h)"
proof -
  let ?N = "\<lambda>_::string. NaN"
  obtain p h w where ok: "extractNeeded ?N demoTable = Ok p h w"
    using extractNeeded_is_Ok by blast
  have run: "parseWorkbookToNeededMetrics (\<lambda>_::unit. Returned (oneSheetWorkbook ''Sheet1'' demoTable))
       Returned ?N () = Returned (Ok p h w)"
    using demo_decoded [of ?N] ok by simp
  have tp: "time p = [Fin 0, NaN, Fin 1]"
    using extractNeeded_Ok_D(1) [OF ok]
    unfolding demo_header fst_conv snd_conv demo_colIndex demo_timeIdx demo_live demo_time .
  note a = needed_metrics_aligned [OF run]
  have th: "time h = [Fin 0, NaN, Fin 1]"
    using a tp by simp
  have lp: "list_all (\<lambda>s. length (values s) = 3) (series p)"
    using a unfolding tp by (simp add: numeral_3_eq_3)
  have lh: "list_all (\<lambda>s. length (values s) = 3) (series h)"
    using a unfolding th by (simp add: numeral_3_eq_3)
  show ?thesis
    using run tp th lp lh by blast
qed

section \<open>Column resolver\<close>

lemma strippedScan_first:
  "n < length ci \<Longrightarrow> strip_ws (fst (ci ! n)) = strip_ws k
    \<Longrightarrow> (\<forall>m<n. strip_ws (fst (ci ! m)) \<noteq> strip_ws k)
    \<Longrightarrow> strippedScan ci k = int (snd (ci ! n))"
proof (induction ci arbitrary: n)
  case Nil
  then show ?case by simp
next
  case (Cons e es)
  obtain h i where e: "e = (h, i)" by (cases e)
  show ?case
  proof (cases n)
    case 0
    with Cons.prems e show ?thesis by simp
  next
    case (Suc n')
    have "strip_ws h \<noteq> strip_ws k"
      using Cons.prems(3) Suc e by auto
    moreover have "strippedScan es k = int (snd (es ! n'))"
    proof (rule Cons.IH)
      show "n' < length es" using Cons.prems(1) Suc by simp
      show "strip_ws (fst (es ! n')) = strip_ws k" using Cons.prems(2) Suc by simp
      show "\<forall>m<n'. strip_ws (fst (es ! m)) \<noteq> strip_ws k"
        using Cons.prems(3) Suc by auto
    qed
    ultimately show ?thesis using Suc e by simp
  qed
qed

lemma strippedScan_none:
  "(\<forall>e\<in>set ci. strip_ws (fst e) \<noteq> strip_ws k) \<Longrightarrow> strippedScan ci k = - 1"
  by (induction ci) auto

lemma alias_nonempty: "map_of HEADER_ALIASES k = Some a \<Longrightarrow> a \<noteq> []"
  by (auto simp: HEADER_ALIASES_def split: if_splits)

lemma getCol_no_alias:
  assumes "map_of ci k = None" "\<forall>a. map_of HEADER_ALIASES k = Some a \<longrightarrow> map_of ci a = None"
  shows "getColIndexWithAliases ci k = strippedScan ci k"
  using assms by (simp add: getColIndexWithAliases_def split: option.splits)

text \<open>
  Claim C3.  The resolver has three tiers.  A requested key that is itself in the column
  index resolves to its own position.  Otherwise, if the alias table maps the key to an
  alias that is in the column index, it resolves to the alias's position.  Otherwise it
  resolves to the position of the first entry of the column index (in iteration order)
  whose label, with all white space removed, equals the key with all white space
  removed; and to \<open>-1\<close> when there is no such entry.
\<close>

theorem getColIndexWithAliases_three_tiers:
  "(map_of ci k = Some i \<longrightarrow> getColIndexWithAliases ci k = int i)
   \<and> (map_of ci k = None \<and> map_of HEADER_ALIASES k = Some a \<and> map_of ci a = Some i
        \<longrightarrow> getColIndexWithAliases ci k = int i)
   \<and> (map_of ci k = None \<and> (\<forall>a. map_of HEADER_ALIASES k = Some a \<longrightarrow> map_of ci a = None)
        \<and> n < length ci \<and> strip_ws (fst (ci ! n)) = strip_ws k
        \<and> (\<forall>m<n. strip_ws (fst (ci ! m)) \<noteq> strip_ws k)
        \<longrightarrow> getColIndexWithAliases ci k = int (snd (ci ! n)))
   \<and> (map_of ci k = None \<and> (\<forall>a. map_of HEADER_ALIASES k = Some a \<longrightarrow> map_of ci a = None)
        \<and> (\<forall>e\<in>set ci. strip_ws (fst e) \<noteq> strip_ws k)
        \<longrightarrow> getColIndexWithAliases ci k = - 1)"
proof (intro conjI impI)
  assume "map_of ci k = Some i"
  then show "getColIndexWithAliases ci k = int i"
    by (simp add: getColIndexWithAliases_def)
next
  assume "map_of ci k = None \<and> map_of HEADER_ALIASES k = Some a \<and> map_of ci a = Some i"
  then show "getColIndexWithAliases ci k = int i"
    using alias_nonempty [of k a] by (simp add: getColIndexWithAliases_def)
next
  assume "map_of ci k = None \<and> (\<forall>a. map_of HEADER_ALIASES k = Some a \<longrightarrow> map_of ci a = None)
        \<and> n < length ci \<and> strip_ws (fst (ci ! n)) = strip_ws k
        \<and> (\<forall>m<n. strip_ws (fst (ci ! m)) \<noteq> strip_ws k)"
  then show "getColIndexWithAliases ci k = int (snd (ci ! n))"
    using getCol_no_alias [of ci k] strippedScan_first [of n ci k] by simp
next
  assume "map_of ci k = None \<and> (\<forall>a. map_of HEADER_ALIASES k = Some a \<longrightarrow> map_of ci a = None)
        \<and> (\<forall>e\<in>set ci. strip_ws (fst e) \<noteq> strip_ws k)"
  then show "getColIndexWithAliases ci k = - 1"
    using getCol_no_alias [of ci k] strippedScan_none [of ci k] by simp
qed

theorem getColIndexWithAliases_three_tiers_witness:
  "getColIndexWithAliases demoIndex ''Time'' = 0
   \<and> getColIndexWithAliases demoIndex ''/Calc/Knee/Lead/Flexion/Extension_x'' = 2
   \<and> getColIndexWithAliases demoIndex ''a  b '' = 1
   \<and> getColIndexWithAliases demoIndex ''Frame'' = - 1"
proof (intro conjI)
  show "getColIndexWithAliases demoIndex ''Time'' = 0"
    using getColIndexWithAliases_three_tiers [of demoIndex "''Time''" 0]
    by (simp add: demoIndex_def)
  show "getColIndexWithAliases demoIndex ''/Calc/Knee/Lead/Flexion/Extension_x'' = 2"
    using getColIndexWithAliases_three_tiers
      [of demoIndex "''/Calc/Knee/Lead/Flexion/Extension_x''" 2 "''/Calc/Knee/Lead/FlexionExtension_x''"]
    by (simp add: demoIndex_def HEADER_ALIASES_def)
  show "getColIndexWithAliases demoIndex ''a  b '' = 1"
    using getColIndexWithAliases_three_tiers [of demoIndex "''a  b ''" _ _ 1]
    by (simp add: demoIndex_def HEADER_ALIASES_def strip_ws_def is_space_def)
  show "getColIndexWithAliases demoIndex ''Frame'' = - 1"
    using getColIndexWithAliases_three_tiers [of demoIndex "''Frame''"]
    by (simp add: demoIndex_def HEADER_ALIASES_def strip_ws_def is_space_def)
qed

section \<open>Skipped rows, and the size of the result\<close>

lemma toNumber_Null_row:
  assumes "list_all (\<lambda>c. c = Null) cs"
  shows "toNumber N (cellAt cs i) = NaN"
proof (cases "0 \<le> i \<and> nat i < length cs")
  case True
  then have "cs ! nat i = Null"
    using assms by (simp add: list_all_length)
  with True show ?thesis by (simp add: cellAt_def)
next
  case False
  then show ?thesis by (auto simp: cellAt_def)
qed

lemma timeOfRow_Null_row: "list_all (\<lambda>c. c = Null) cs \<Longrightarrow> timeOfRow N ti cs = NaN"
  by (simp add: timeOfRow_def finiteOrNaN_def toNumber_Null_row)

lemma valueOfRow_Null_row: "list_all (\<lambda>c. c = Null) cs \<Longrightarrow> valueOfRow N ci k cs = NaN"
  by (simp add: valueOfRow_def finiteOrNaN_def toNumber_Null_row Let_def)

lemma timeOfRow_unresolved: "ti < 0 \<Longrightarrow> timeOfRow N ti cs = NaN"
  by (simp add: timeOfRow_def finiteOrNaN_def)

lemma length_liveRows:
  "length (liveRows rs) = length (filter (\<lambda>r. r \<noteq> None \<and> r \<noteq> Some []) rs)"
  by (simp add: liveRows_def)

text \<open>
  Claim C10.  A row after the header row that is null, undefined or without cells adds
  nothing: the time sequence and every series hold one entry per remaining row, in
  order, so their common length is the number of rows after the header that are neither
  null nor empty.  A row that has cells, all of them null, adds \<open>NaN\<close> to the time sequence
  and to every series.
\<close>

theorem empty_rows_are_skipped:
  assumes "extractNeeded N t = Ok p h w"
  shows "(let rs = drop (Suc (fst (findHeaderRowWithTime t))) t;
              ci = colIndexLoop 0 (snd (findHeaderRowWithTime t)) [];
              ti = getColIndexWithAliases ci ''Time''
          in time p = map (timeOfRow N ti) (liveRows rs)
             \<and> time h = time p
             \<and> list_all (\<lambda>s. values s = map (valueOfRow N ci (key s)) (liveRows rs)) (series p @ series h)
             \<and> length (time p) = length (filter (\<lambda>r. r \<noteq> None \<and> r \<noteq> Some []) rs)
             \<and> list_all (\<lambda>s. length (values s) = length (filter (\<lambda>r. r \<noteq> None \<and> r \<noteq> Some []) rs))
                  (series p @ series h))
         \<and> (\<forall>cs ti ci k. cs \<noteq> [] \<and> list_all (\<lambda>c. c = Null) cs
               \<longrightarrow> timeOfRow N ti cs = NaN \<and> valueOfRow N ci k cs = NaN)"
proof -
  note d = extractNeeded_Ok_D [OF assms]
  let ?rs = "drop (Suc (fst (findHeaderRowWithTime t))) t"
  let ?ci = "colIndexLoop 0 (snd (findHeaderRowWithTime t)) []"
  have v: "list_all (\<lambda>s. values s = map (valueOfRow N ?ci (key s)) (liveRows ?rs)) (series p @ series h)"
    unfolding list_all_iff d(3) d(4) by (auto dest: seriesFor_values)
  then have l: "list_all (\<lambda>s. length (values s) = length (filter (\<lambda>r. r \<noteq> None \<and> r \<noteq> Some []) ?rs))
                  (series p @ series h)"
    unfolding list_all_iff by (auto simp: length_liveRows)
  have n: "length (time p) = length (filter (\<lambda>r. r \<noteq> None \<and> r \<noteq> Some []) ?rs)"
    unfolding d(1) by (simp add: length_liveRows)
  show ?thesis
    unfolding Let_def using d(1) d(2) v l n timeOfRow_Null_row valueOfRow_Null_row by blast
qed

theorem empty_rows_are_skipped_witness:
  "\<exists>p h w. extractNeeded (\<lambda>_. NaN) demoTable = Ok p h w
     \<and> length (drop 2 demoTable) = 5
     \<and> time p = [Fin 0, NaN, Fin 1]
     \<and> list_all (\<lambda>s. length (values s) = 3) (series p @ series h)
     \<and> timeOfRow (\<lambda>_. NaN) 0 [Null, Null] = NaN
     \<and> valueOfRow (\<lambda>_. NaN) [(''Time'', 0), (''x'', 1)] ''x'' [Null, Null] = NaN"
proof -
  let ?N = "\<lambda>_::string. NaN"
  obtain p h w where ok: "extractNeeded ?N demoTable = Ok p h w"
    using extractNeeded_is_Ok by blast
  note a = empty_rows_are_skipped [OF ok, unfolded Let_def demo_header fst_conv snd_conv
      demo_colIndex demo_timeIdx demo_live demo_time]
  have n5: "length (drop 2 demoTable) = 5"
    by (simp add: demoTable_def)
  have f3: "length (filter (\<lambda>r. r \<noteq> None \<and> r \<noteq> Some []) (drop (Suc 1) demoTable)) = 3"
    by (simp add: demoTable_def)
  have tp: "time p = [Fin 0, NaN, Fin 1]"
    using a by simp
  have ls: "list_all (\<lambda>s. length (values s) = 3) (series p @ series h)"
    using a unfolding f3 by blast
  have nul: "timeOfRow ?N 0 [Null, Null] = NaN
      \<and> valueOfRow ?N [(''Time'', 0), (''x'', 1)] ''x'' [Null, Null] = NaN"
    using a by simp
  show ?thesis
    using ok n5 tp ls nul by blast
qed

text \<open>
  Claim C9.  Once a sheet with at least one row has been decoded, the result is
  \<open>ok: true\<close>: each role's series list has the 14 entries of the role's whitelist, so the
  failure with the reason "No needed metrics could be extracted." is never returned.
\<close>

theorem no_needed_metrics_failure_unreachable:
  assumes "rd buf = Returned wb" "selectSheetName (SheetNames wb) = Some n" "n \<noteq> []"
    "Sheets wb n = Some ws" "s2j ws = Returned t" "t \<noteq> []"
  shows "(\<exists>p h w. parseWorkbookToNeededMetrics rd s2j N buf = Returned (Ok p h w)
           \<and> length (series p) = 14 \<and> length (series h) = 14)
         \<and> parseWorkbookToNeededMetrics rd s2j N buf
               \<noteq> Returned (Fail ''No needed metrics could be extracted.'' w')
         \<and> length (NEEDED_MAP Pitcher) = 14 \<and> length (NEEDED_MAP Hitter) = 14"
proof -
  obtain p h w where ok: "extractNeeded N t = Ok p h w"
    using extractNeeded_is_Ok by blast
  note d = extractNeeded_Ok_D [OF ok]
  have "parseWorkbookToNeededMetrics rd s2j N buf = Returned (Ok p h w)"
    using parse_decoded [where rd = rd and buf = buf and wb = wb and n = n and ws = ws
        and ?s2j = s2j and t = t and N = N] assms ok by simp
  moreover have "length (series p) = 14" "length (series h) = 14"
    unfolding d(3) d(4) by (rule length_seriesFor)+
  moreover have "length (NEEDED_MAP Pitcher) = 14" "length (NEEDED_MAP Hitter) = 14"
    by simp_all
  ultimately show ?thesis by auto
qed

theorem no_needed_metrics_failure_unreachable_witness:
  "\<exists>p h w. parseWorkbookToNeededMetrics (\<lambda>_::unit. Returned (oneSheetWorkbook ''Sheet1'' demoTable))
       Returned (\<lambda>_. NaN) () = Returned (Ok p h w)
     \<and> length (series p) = 14 \<and> length (series h) = 14"
proof -
  have "(\<exists>p h w. parseWorkbookToNeededMetrics (\<lambda>_::unit. Returned (oneSheetWorkbook ''Sheet1'' demoTable))
       Returned (\<lambda>_. NaN) () = Returned (Ok p h w)
     \<and> length (series p) = 14 \<and> length (series h) = 14)
     \<and> parseWorkbookToNeededMetrics (\<lambda>_::unit. Returned (oneSheetWorkbook ''Sheet1'' demoTable))
       Returned (\<lambda>_. NaN) () \<noteq> Returned (Fail ''No needed metrics could be extracted.'' [])
     \<and> length (NEEDED_MAP Pitcher) = 14 \<and> length (NEEDED_MAP Hitter) = 14"
    by (rule no_needed_metrics_failure_unreachable
          [where wb = "oneSheetWorkbook ''Sheet1'' demoTable" and n = "''Sheet1''" and ws = demoTable
             and t = demoTable])
       (simp_all add: oneSheetWorkbook_def selectSheetName_Sheet1 demoTable_def)
  then show ?thesis by blast
qed

section \<open>A missing time column\<close>

text \<open>
  Claim C5.  When the selected sheet has a row but its header has no column that resolves
  for "Time", the parse still succeeds: the warnings contain the message about the
  missing time column, and the time sequence of both roles holds one \<open>NaN\<close> for each row
  after the header that is neither null nor empty, and nothing else.
\<close>

theorem missing_time_column_is_only_a_warning:
  assumes "rd buf = Returned wb" "selectSheetName (SheetNames wb) = Some n" "n \<noteq> []"
    "Sheets wb n = Some ws" "s2j ws = Returned t" "t \<noteq> []"
    and "getColIndexWithAliases (colIndexLoop 0 (snd (findHeaderRowWithTime t)) []) ''Time'' < 0"
  shows "\<exists>p h w. parseWorkbookToNeededMetrics rd s2j N buf = Returned (Ok p h w)
           \<and> ''Could not find 'Time' column; times will be NaN.'' \<in> set w
           \<and> list_all (\<lambda>x. x = NaN) (time p) \<and> list_all (\<lambda>x. x = NaN) (time h)
           \<and> time p = replicate
                 (length (filter (\<lambda>r. r \<noteq> None \<and> r \<noteq> Some [])
                            (drop (Suc (fst (findHeaderRowWithTime t))) t))) NaN
           \<and> time h = time p"
proof -
  obtain p h w where ok: "extractNeeded N t = Ok p h w"
    using extractNeeded_is_Ok by blast
  note d = extractNeeded_Ok_D [OF ok]
  let ?rs = "drop (Suc (fst (findHeaderRowWithTime t))) t"
  have run: "parseWorkbookToNeededMetrics rd s2j N buf = Returned (Ok p h w)"
    using parse_decoded [where rd = rd and buf = buf and wb = wb and n = n and ws = ws
        and ?s2j = s2j and t = t and N = N] assms(1-6) ok by simp
  have "time p = map (\<lambda>cs. NaN) (liveRows ?rs)"
    unfolding d(1) using assms(7) by (simp add: timeOfRow_unresolved)
  then have rep: "time p = replicate (length (filter (\<lambda>r. r \<noteq> None \<and> r \<noteq> Some []) ?rs)) NaN"
    by (simp add: map_replicate_const length_liveRows)
  then have tp: "list_all (\<lambda>x. x = NaN) (time p)"
    by (simp add: list_all_iff)
  then have th: "list_all (\<lambda>x. x = NaN) (time h)"
    using d(2) by simp
  have "timeWarning \<in> set w"
    unfolding d(5) using assms(7) by (simp add: missingWarnings_keeps)
  then have "''Could not find 'Time' column; times will be NaN.'' \<in> set w"
    by (simp add: timeWarning_def)
  with run tp th rep d(2) show ?thesis by blast
qed

lemma untimed_header: "findHeaderRowWithTime untimedTable = (0, [Str ''x''])"
  by code_simp

lemma untimed_colIndex: "colIndexLoop 0 [Str ''x''] [] = [(''x'', 0)]"
  by code_simp

lemma untimed_timeIdx: "getColIndexWithAliases [(''x'', 0)] ''Time'' = - 1"
  by code_simp

lemma untimed_rows:
  "length (filter (\<lambda>r. r \<noteq> None \<and> r \<noteq> Some []) (drop (Suc 0) untimedTable)) = 2"
  by (simp add: untimedTable_def)

theorem missing_time_column_is_only_a_warning_witness:
  "getColIndexWithAliases (colIndexLoop 0 (snd (findHeaderRowWithTime untimedTable)) []) ''Time'' = - 1
   \<and> (\<exists>p h w. parseWorkbookToNeededMetrics (\<lambda>_::unit. Returned (oneSheetWorkbook ''Sheet1'' untimedTable))
          Returned (\<lambda>_. NaN) () = Returned (Ok p h w)
        \<and> ''Could not find 'Time' column; times will be NaN.'' \<in> set w
        \<and> time p = [NaN, NaN] \<and> time h = [NaN, NaN])"
proof
  show idx: "getColIndexWithAliases (colIndexLoop 0 (snd (findHeaderRowWithTime untimedTable)) []) ''Time'' = - 1"
    unfolding untimed_header snd_conv untimed_colIndex by (rule untimed_timeIdx)
  have "\<exists>p h w. parseWorkbookToNeededMetrics (\<lambda>_::unit. Returned (oneSheetWorkbook ''Sheet1'' untimedTable))
          Returned (\<lambda>_. NaN) () = Returned (Ok p h w)
        \<and> ''Could not find 'Time' column; times will be NaN.'' \<in> set w
        \<and> list_all (\<lambda>x. x = NaN) (time p) \<and> list_all (\<lambda>x. x = NaN) (time h)
        \<and> time p = replicate
              (length (filter (\<lambda>r. r \<noteq> None \<and> r \<noteq> Some [])
                         (drop (Suc (fst (findHeaderRowWithTime untimedTable))) untimedTable))) NaN
        \<and> time h = time p"
    by (rule missing_time_column_is_only_a_warning
          [where wb = "oneSheetWorkbook ''Sheet1'' untimedTable" and n = "''Sheet1''"
             and ws = untimedTable and t = untimedTable])
       (simp_all add: oneSheetWorkbook_def selectSheetName_Sheet1 idx, simp add: untimedTable_def)
  then obtain p h w where
    run: "parseWorkbookToNeededMetrics (\<lambda>_::unit. Returned (oneSheetWorkbook ''Sheet1'' untimedTable))
          Returned (\<lambda>_. NaN) () = Returned (Ok p h w)"
    and warn: "''Could not find 'Time' column; times will be NaN.'' \<in> set w"
    and tp: "time p = replicate
              (length (filter (\<lambda>r. r \<noteq> None \<and> r \<noteq> Some [])
                         (drop (Suc (fst (findHeaderRowWithTime untimedTable))) untimedTable))) NaN"
    and th: "time h = time p"
    by blast
  have two: "time p = [NaN, NaN]"
    using tp unfolding untimed_header fst_conv untimed_rows by (simp add: numeral_2_eq_2)
  show "\<exists>p h w. parseWorkbookToNeededMetrics (\<lambda>_::unit. Returned (oneSheetWorkbook ''Sheet1'' untimedTable))
          Returned (\<lambda>_. NaN) () = Returned (Ok p h w)
        \<and> ''Could not find 'Time' column; times will be NaN.'' \<in> set w
        \<and> time p = [NaN, NaN] \<and> time h = [NaN, NaN]"
    using run warn two th by auto
qed

section \<open>No exception escapes\<close>

text \<open>
  Claim C2.  \<open>parseWorkbookToNeededMetrics\<close> and its wrapper \<open>parseExcelToNeededMetrics\<close>
  always return.  A workbook without sheets, a selected sheet that cannot be read and a
  sheet without rows each give a failure result with its reason and no warnings; an
  error thrown while the buffer is read or decoded gives the failure result with the
  error's message and no warnings.
\<close>

theorem needed_metrics_never_throws:
  "(\<exists>r. parseWorkbookToNeededMetrics rd s2j N buf = Returned r)
   \<and> (\<exists>r. parseExcelToNeededMetrics arrayBuffer rd s2j N file = Returned r)
   \<and> (rd buf = Threw e \<longrightarrow> parseWorkbookToNeededMetrics rd s2j N buf = Returned (Fail e []))
   \<and> (rd buf = Returned wb \<and> SheetNames wb = []
        \<longrightarrow> parseWorkbookToNeededMetrics rd s2j N buf
              = Returned (Fail ''No sheets found in workbook.'' []))
   \<and> (rd buf = Returned wb \<and> selectSheetName (SheetNames wb) = Some n \<and> n \<noteq> []
        \<and> Sheets wb n = None
        \<longrightarrow> parseWorkbookToNeededMetrics rd s2j N buf
              = Returned (Fail (''Sheet '' @ apostrophe @ n @ apostrophe @ '' is empty or unreadable.'') []))
   \<and> (rd buf = Returned wb \<and> selectSheetName (SheetNames wb) = Some n \<and> n \<noteq> []
        \<and> Sheets wb n = Some ws \<and> s2j ws = Returned []
        \<longrightarrow> parseWorkbookToNeededMetrics rd s2j N buf
              = Returned (Fail (''Sheet '' @ apostrophe @ n @ apostrophe @ '' has no data.'') []))
   \<and> (rd buf = Returned wb \<and> selectSheetName (SheetNames wb) = Some n \<and> n \<noteq> []
        \<and> Sheets wb n = Some ws \<and> s2j ws = Threw e
        \<longrightarrow> parseWorkbookToNeededMetrics rd s2j N buf = Returned (Fail e []))
   \<and> (arrayBuffer file = Threw e
        \<longrightarrow> parseExcelToNeededMetrics arrayBuffer rd s2j N file = Returned (Fail e []))
   \<and> (arrayBuffer file = Returned buf
        \<longrightarrow> parseExcelToNeededMetrics arrayBuffer rd s2j N file
              = parseWorkbookToNeededMetrics rd s2j N buf)"
proof -
  have total: "\<exists>r. parseWorkbookToNeededMetrics rd s2j N b = Returned r" for b
    by (simp add: parseWorkbookToNeededMetrics_def split: outcome.splits)
  have wrap: "\<exists>r. parseExcelToNeededMetrics arrayBuffer rd s2j N file = Returned r"
    by (simp add: parseExcelToNeededMetrics_def split: outcome.splits)
  have wrapped: "arrayBuffer file = Returned buf
        \<longrightarrow> parseExcelToNeededMetrics arrayBuffer rd s2j N file
              = parseWorkbookToNeededMetrics rd s2j N buf"
    using total [of buf] by (auto simp: parseExcelToNeededMetrics_def)
  have nosheet: "selectSheetName [] = None"
    by (simp add: selectSheetName_def)
  show ?thesis
    using total [of buf] wrap wrapped
    by (simp add: parseWorkbookToNeededMetrics_def parseWorkbookToNeededMetrics_try_def
        parseExcelToNeededMetrics_def nosheet)
qed

lemma selectSheetName_S: "selectSheetName [''S''] = Some ''S''"
  by code_simp

theorem needed_metrics_never_throws_witness:
  "parseWorkbookToNeededMetrics (\<lambda>_::unit. Threw ''bad zip'') (Returned :: table \<Rightarrow> table outcome)
      (\<lambda>_. NaN) () = Returned (Fail ''bad zip'' [])
   \<and> parseWorkbookToNeededMetrics (\<lambda>_::unit. Returned \<lparr>SheetNames = [], Sheets = (\<lambda>_. None)\<rparr>)
        (Returned :: table \<Rightarrow> table outcome) (\<lambda>_. NaN) ()
      = Returned (Fail ''No sheets found in workbook.'' [])
   \<and> parseWorkbookToNeededMetrics (\<lambda>_::unit. Returned \<lparr>SheetNames = [''S''], Sheets = (\<lambda>_. None)\<rparr>)
        (Returned :: table \<Rightarrow> table outcome) (\<lambda>_. NaN) ()
      = Returned (Fail ''Sheet 'S' is empty or unreadable.'' [])
   \<and> parseWorkbookToNeededMetrics (\<lambda>_::unit. Returned (oneSheetWorkbook ''S'' []))
        (Returned :: table \<Rightarrow> table outcome) (\<lambda>_. NaN) ()
      = Returned (Fail ''Sheet 'S' has no data.'' [])
   \<and> parseWorkbookToNeededMetrics (\<lambda>_::unit. Returned (oneSheetWorkbook ''S'' ()))
        (\<lambda>_. Threw ''bad range'') (\<lambda>_. NaN) ()
      = Returned (Fail ''bad range'' [])
   \<and> parseExcelToNeededMetrics (\<lambda>_::unit. Threw ''file is gone'')
        (\<lambda>_::unit. Threw ''bad zip'') (Returned :: table \<Rightarrow> table outcome) (\<lambda>_. NaN) ()
      = Returned (Fail ''file is gone'' [])
   \<and> parseExcelToNeededMetrics (\<lambda>_::unit. Returned ())
        (\<lambda>_::unit. Threw ''bad zip'') (Returned :: table \<Rightarrow> table outcome) (\<lambda>_. NaN) ()
      = Returned (Fail ''bad zip'' [])"
proof (intro conjI)
  let ?N = "\<lambda>_::string. NaN"
  let ?J = "Returned :: table \<Rightarrow> table outcome"
  let ?A = "\<lambda>_::unit. (Returned () :: unit outcome)"
  let ?none = "\<lparr>SheetNames = [], Sheets = (\<lambda>_. None :: table option)\<rparr>"
  let ?lost = "\<lparr>SheetNames = [''S''], Sheets = (\<lambda>_. None :: table option)\<rparr>"
  show a: "parseWorkbookToNeededMetrics (\<lambda>_::unit. Threw ''bad zip'') ?J ?N () = Returned (Fail ''bad zip'' [])"
    using needed_metrics_never_throws
      [of "\<lambda>_::unit. Threw ''bad zip''" ?J ?N "()" ?A "()" "''bad zip''" ?none "[]" "[]"]
    by simp
  show "parseWorkbookToNeededMetrics (\<lambda>_::unit. Returned ?none) ?J ?N ()
      = Returned (Fail ''No sheets found in workbook.'' [])"
    using needed_metrics_never_throws
      [of "\<lambda>_::unit. Returned ?none" ?J ?N "()" ?A "()" "[]" ?none "[]" "[]"]
    by simp
  show "parseWorkbookToNeededMetrics (\<lambda>_::unit. Returned ?lost) ?J ?N ()
      = Returned (Fail ''Sheet 'S' is empty or unreadable.'' [])"
    using needed_metrics_never_throws
      [of "\<lambda>_::unit. Returned ?lost" ?J ?N "()" ?A "()" "[]" ?lost "''S''" "[]"]
    by (simp add: selectSheetName_S apostrophe_def)
  show "parseWorkbookToNeededMetrics (\<lambda>_::unit. Returned (oneSheetWorkbook ''S'' [])) ?J ?N ()
      = Returned (Fail ''Sheet 'S' has no data.'' [])"
    using needed_metrics_never_throws
      [of "\<lambda>_::unit. Returned (oneSheetWorkbook ''S'' [])" ?J ?N "()" ?A "()" "[]"
          "oneSheetWorkbook ''S'' []" "''S''" "[]"]
    by (simp add: selectSheetName_S apostrophe_def oneSheetWorkbook_def)
  show "parseWorkbookToNeededMetrics (\<lambda>_::unit. Returned (oneSheetWorkbook ''S'' ()))
        (\<lambda>_. Threw ''bad range'') ?N () = Returned (Fail ''bad range'' [])"
    using needed_metrics_never_throws
      [of "\<lambda>_::unit. Returned (oneSheetWorkbook ''S'' ())" "\<lambda>_. Threw ''bad range''" ?N "()" ?A "()"
          "''bad range''" "oneSheetWorkbook ''S'' ()" "''S''" "()"]
    by (simp add: selectSheetName_S oneSheetWorkbook_def)
  show "parseExcelToNeededMetrics (\<lambda>_::unit. Threw ''file is gone'')
        (\<lambda>_::unit. Threw ''bad zip'') ?J ?N () = Returned (Fail ''file is gone'' [])"
    using needed_metrics_never_throws
      [of "\<lambda>_::unit. Threw ''bad zip''" ?J ?N "()" "\<lambda>_::unit. Threw ''file is gone''" "()"
          "''file is gone''" ?none "[]" "[]"]
    by simp
  show "parseExcelToNeededMetrics (\<lambda>_::unit. Returned ())
        (\<lambda>_::unit. Threw ''bad zip'') ?J ?N () = Returned (Fail ''bad zip'' [])"
    using needed_metrics_never_throws
      [of "\<lambda>_::unit. Threw ''bad zip''" ?J ?N "()" "\<lambda>_::unit. Returned ()" "()"
          "''bad zip''" ?none "[]" "[]"]
    by simp
qed

section \<open>Generic header detector\<close>

lemma detectLoop_result:
  assumes "detectLoop i rs (bi, bs) = (ri, rsn)"
  shows "bs \<le> rsn \<and> (\<forall>m<length rs. scoreOf (rs ! m) \<le> rsn)
         \<and> ((ri = bi \<and> rsn = bs)
             \<or> (\<exists>j<length rs. ri = i + j \<and> rsn = scoreOf (rs ! j) \<and> bs < rsn
                   \<and> (\<forall>m<j. scoreOf (rs ! m) < rsn)))"
  using assms
proof (induction rs arbitrary: i bi bs)
  case Nil
  then show ?case by simp
next
  case (Cons r rs)
  let ?s = "scoreOf r"
  show ?case
  proof (cases "?s > bs")
    case True
    then have run: "detectLoop (Suc i) rs (i, ?s) = (ri, rsn)"
      using Cons.prems by (simp add: scoreOf_def Let_def)
    note ih = Cons.IH [OF run]
    from ih have le: "?s \<le> rsn" and all: "\<forall>m<length rs. scoreOf (rs ! m) \<le> rsn"
      by simp_all
    have bound: "\<forall>m<length (r # rs). scoreOf ((r # rs) ! m) \<le> rsn"
      using le all by (auto simp: nth_Cons split: nat.splits)
    from ih consider (stay) "ri = i" "rsn = ?s"
      | (move) j where "j < length rs" "ri = Suc i + j" "rsn = scoreOf (rs ! j)" "?s < rsn"
          "\<forall>m<j. scoreOf (rs ! m) < rsn"
      by blast
    then have "\<exists>j<length (r # rs). ri = i + j \<and> rsn = scoreOf ((r # rs) ! j) \<and> bs < rsn
                   \<and> (\<forall>m<j. scoreOf ((r # rs) ! m) < rsn)"
    proof cases
      case stay
      then show ?thesis using True by (intro exI [of _ 0]) simp
    next
      case (move j)
      then show ?thesis using True
        by (intro exI [of _ "Suc j"]) (auto simp: nth_Cons split: nat.splits)
    qed
    then show ?thesis using bound le True by simp
  next
    case False
    then have run: "detectLoop (Suc i) rs (bi, bs) = (ri, rsn)"
      using Cons.prems by (simp add: scoreOf_def Let_def)
    note ih = Cons.IH [OF run]
    from ih have le: "bs \<le> rsn" and all: "\<forall>m<length rs. scoreOf (rs ! m) \<le> rsn"
      by simp_all
    have bound: "\<forall>m<length (r # rs). scoreOf ((r # rs) ! m) \<le> rsn"
      using le all False by (auto simp: nth_Cons split: nat.splits)
    from ih consider (stay) "ri = bi" "rsn = bs"
      | (move) j where "j < length rs" "ri = Suc i + j" "rsn = scoreOf (rs ! j)" "bs < rsn"
          "\<forall>m<j. scoreOf (rs ! m) < rsn"
      by blast
    then have "(ri = bi \<and> rsn = bs)
             \<or> (\<exists>j<length (r # rs). ri = i + j \<and> rsn = scoreOf ((r # rs) ! j) \<and> bs < rsn
                   \<and> (\<forall>m<j. scoreOf ((r # rs) ! m) < rsn))"
    proof cases
      case stay
      then show ?thesis by simp
    next
      case (move j)
      then have "\<exists>j<length (r # rs). ri = i + j \<and> rsn = scoreOf ((r # rs) ! j) \<and> bs < rsn
                   \<and> (\<forall>m<j. scoreOf ((r # rs) ! m) < rsn)"
        using False
        by (intro exI [of _ "Suc j"]) (auto simp: nth_Cons split: nat.splits)
      then show ?thesis ..
    qed
    then show ?thesis using bound le by simp
  qed
qed

lemma detector_picks_first_maximum:
  assumes "rows = take (min (length t) 20) t"
  shows "(\<exists>m<length rows. 0 \<le> scoreOf (rows ! m))
           \<longrightarrow> (\<exists>j<length rows. detectBestIdx t = j
                  \<and> (\<forall>m<length rows. scoreOf (rows ! m) \<le> scoreOf (rows ! j))
                  \<and> (\<forall>m<j. scoreOf (rows ! m) < scoreOf (rows ! j)))"
    and "(\<forall>m<length rows. scoreOf (rows ! m) < 0) \<longrightarrow> detectBestIdx t = 0"
proof -
  obtain ri rsn where run: "detectLoop 0 rows (0, - 1) = (ri, rsn)"
    by (cases "detectLoop 0 rows (0, - 1)")
  have idx: "detectBestIdx t = ri"
    using run assms by (simp add: detectBestIdx_def Let_def)
  note res = detectLoop_result [OF run]
  show "(\<exists>m<length rows. 0 \<le> scoreOf (rows ! m))
           \<longrightarrow> (\<exists>j<length rows. detectBestIdx t = j
                  \<and> (\<forall>m<length rows. scoreOf (rows ! m) \<le> scoreOf (rows ! j))
                  \<and> (\<forall>m<j. scoreOf (rows ! m) < scoreOf (rows ! j)))"
  proof
    assume "\<exists>m<length rows. 0 \<le> scoreOf (rows ! m)"
    then have "rsn \<noteq> - 1"
      using res by fastforce
    then obtain j where "j < length rows" "ri = j" "rsn = scoreOf (rows ! j)"
      "\<forall>m<j. scoreOf (rows ! m) < rsn"
      using res by auto
    then show "\<exists>j<length rows. detectBestIdx t = j
                  \<and> (\<forall>m<length rows. scoreOf (rows ! m) \<le> scoreOf (rows ! j))
                  \<and> (\<forall>m<j. scoreOf (rows ! m) < scoreOf (rows ! j))"
      using res idx by blast
  qed
  show "(\<forall>m<length rows. scoreOf (rows ! m) < 0) \<longrightarrow> detectBestIdx t = 0"
  proof
    assume neg: "\<forall>m<length rows. scoreOf (rows ! m) < 0"
    have "ri = 0"
    proof (rule ccontr)
      assume "ri \<noteq> 0"
      then obtain j where "j < length rows" "rsn = scoreOf (rows ! j)" "- 1 < rsn"
        using res by auto
      then show False using neg by fastforce
    qed
    then show "detectBestIdx t = 0" using idx by simp
  qed
qed

text \<open>
  Claim C4.  The detector scores the first \<open>min 20 (length t)\<close> rows and is meant to select
  the row with the greatest score, the lowest index winning a tie.  The two lemmas above
  show that it does so when some scanned row scores at least 0, and that it returns row 0
  when every scanned row scores below 0.  In the grid below the rows score -3, -2 and -3:
  row 1 has the strictly greatest score, and the detector returns row 0.
\<close>

theorem detector_keeps_row_zero_below_sentinel:
  "map (\<lambda>r. rowScore (rowOrEmpty r)) titleTable = [- 3, - 2, - 3]
   \<and> detectBestIdx titleTable = 0"
  by code_simp

text \<open>
  Claim C8.  Header cleanup is meant to leave no two equal non-empty labels.  For the
  header row \<open>a, a, a (2)\<close> the second \<open>a\<close> becomes \<open>a (2)\<close>, the label the third cell already
  has: the cleaned header holds \<open>a (2)\<close> twice.
\<close>

theorem dedupe_collides_with_suffixed_label:
  "dedupeHeaders (map canonicalHeader [''a'', ''a'', ''a (2)'']) = [''a'', ''a (2)'', ''a (2)'']
   \<and> fst (detectHeaderAndExtract S clashTable) = [''a'', ''a (2)'', ''a (2)'']
   \<and> \<not> distinct (fst (detectHeaderAndExtract S clashTable))"
proof -
  have d: "dedupeHeaders (map canonicalHeader [''a'', ''a'', ''a (2)'']) = [''a'', ''a (2)'', ''a (2)'']"
    by code_simp
  have b: "detectBestIdx clashTable = 0"
    by code_simp
  have h: "fst (detectHeaderAndExtract S clashTable) = dedupeHeaders (map canonicalHeader [''a'', ''a'', ''a (2)''])"
    unfolding detectHeaderAndExtract_def Let_def b
    by (simp add: clashTable_def tableAt_def rowOrEmpty_def cellToString_def)
  show ?thesis
    unfolding h d by simp
qed

section \<open>Generic row normalizer\<close>

lemma length_normalizeSheet: "length (normalizeSheet N DP rowsRaw fps) = length rowsRaw"
  by (cases rowsRaw) (simp_all add: normalizeSheet_def Let_def)

lemma normalizeSheet_nth:
  assumes "rowsRaw = r0 # rest" "i < length rowsRaw"
  shows "normalizeSheet N DP rowsRaw fps ! i
           = copyFields N (map fst r0) (rowsRaw ! i)
               (Map.empty(''t'' \<mapsto> rowTime N DP fps rowsRaw (map fst r0) (rowsRaw ! i)))"
proof -
  have "normalizeSheet N DP rowsRaw fps
          = map (\<lambda>r. copyFields N (map fst r0) r
                   (Map.empty(''t'' \<mapsto> rowTime N DP fps rowsRaw (map fst r0) r))) rowsRaw"
    unfolding normalizeSheet_def Let_def assms(1) by simp
  then show ?thesis using assms(2) by simp
qed

lemma copyFields_keeps:
  assumes "k \<notin> set keys \<or> Some k = timeKeyOf keys \<or> Some k = msKeyOf keys \<or> Some k = frameKeyOf keys"
  shows "copyFields N keys r row k = row k"
proof -
  have "fold (\<lambda>k row.
             if Some k = timeKeyOf keys \<or> Some k = msKeyOf keys \<or> Some k = frameKeyOf keys then row
             else (let n = num N (getProp r k) in if isFinite n then row(k \<mapsto> n) else row))
          ks row k = row k"
    if "k \<notin> set ks \<or> Some k = timeKeyOf keys \<or> Some k = msKeyOf keys \<or> Some k = frameKeyOf keys"
    for ks
    using that by (induction ks arbitrary: row) (auto simp: Let_def)
  then show ?thesis
    using assms by (simp add: copyFields_def)
qed

lemma js_div_nonfinite: "\<not> isFinite n \<Longrightarrow> js_div n (Fin 1000) = n"
  by (cases n) simp_all

lemma rowTime_timeKey:
  assumes "truthyKey (timeKeyOf keys) = Some tk"
  shows "rowTime N DP fps rowsRaw keys r =
           (let n = num N (getProp r tk)
            in if truthyKey (msKeyOf keys) \<noteq> None
                  \<or> (js_gt n (Fin 50) \<and> js_gt (averageDelta N rowsRaw tk) (Fin 10))
               then js_div n (Fin 1000) else n)"
proof (cases "isFinite (num N (getProp r tk))")
  case True
  then show ?thesis
    unfolding rowTime_def assms Let_def by simp
next
  case False
  then have "js_div (num N (getProp r tk)) (Fin 1000) = num N (getProp r tk)"
    by (rule js_div_nonfinite)
  with False show ?thesis
    unfolding rowTime_def assms Let_def by simp
qed

lemma timestamp_key_is_time_key:
  assumes "list_ex re_timestamp keys"
  shows "truthyKey (timeKeyOf keys) \<noteq> None"
proof -
  obtain k where k: "find re_timestamp keys = Some k"
    using assms by (cases "find re_timestamp keys") (auto simp: find_None_iff list_ex_iff)
  then have "re_timestamp k"
    by (auto simp: find_Some_iff)
  then have "k \<noteq> []"
    by (auto simp: re_timestamp_def lower_def)
  then have "truthyKey (Some k) \<noteq> None"
    by (cases k) (simp_all add: truthyKey_def)
  moreover have "truthyKey (Some y) = Some y" if "truthyKey x = Some y" for x y
    using that by (auto simp: truthyKey_def split: option.splits list.splits)
  ultimately show ?thesis
    using k by (auto simp: timeKeyOf_def split: option.splits)
qed

lemma roundDouble_exact:
  "roundDouble 1 = Fin 1" "roundDouble 2 = Fin 2" "roundDouble 5 = Fin 5"
  "roundDouble 120 = Fin 120" "roundDouble 240 = Fin 240" "roundDouble 360 = Fin 360"
  "roundDouble 1000 = Fin 1000" "roundDouble 1005 = Fin 1005"
  "roundDouble (1005 / 2) = Fin (1005 / 2)"
  by code_simp+

lemma roundDouble_inexact:
  "roundDouble (201 / 200) = Fin (1131529406376837 / 1125899906842624)"
  "roundDouble (3 / 25) = Fin (1080863910568919 / 9007199254740992)"
  "roundDouble (6 / 25) = Fin (1080863910568919 / 4503599627370496)"
  "roundDouble (9 / 25) = Fin (3242591731706757 / 9007199254740992)"
  by code_simp+

lemma time_row:
  assumes "rowsRaw = r0 # rest" and "truthyKey (timeKeyOf (map fst r0)) = Some tk"
    and "i < length rowsRaw" and "''t'' \<notin> set (map fst r0)"
  shows "(normalizeSheet N DP rowsRaw fps ! i) ''t''
           = Some (let n = num N (getProp (rowsRaw ! i) tk)
                   in if truthyKey (msKeyOf (map fst r0)) \<noteq> None
                         \<or> (js_gt n (Fin 50) \<and> js_gt (averageDelta N rowsRaw tk) (Fin 10))
                      then js_div n (Fin 1000) else n)"
proof -
  have "copyFields N (map fst r0) (rowsRaw ! i) row ''t'' = row ''t''" for row
    by (rule copyFields_keeps) (use assms(4) in simp)
  then have "(normalizeSheet N DP rowsRaw fps ! i) ''t''
               = Some (rowTime N DP fps rowsRaw (map fst r0) (rowsRaw ! i))"
    unfolding normalizeSheet_nth [OF assms(1) assms(3)] by simp
  then show ?thesis
    unfolding rowTime_timeKey [OF assms(2)] .
qed

lemma time_column_row:
  assumes "rowsRaw = r0 # rest" and "truthyKey (timeKeyOf (map fst r0)) = Some tk"
    and "i < length rowsRaw" and "''t'' \<notin> set (map fst r0)"
    and "truthyKey (msKeyOf (map fst r0)) = None"
    and "getProp (rowsRaw ! i) tk = Num (Fin x)"
    and "averageDelta N rowsRaw tk = Fin d"
  shows "(normalizeSheet N DP rowsRaw fps ! i) ''t''
           = Some (if x > 50 \<and> d > 10 then roundDouble (x / 1000) else Fin x)"
  unfolding time_row [OF assms(1-4)] assms(5) assms(6) assms(7) by (simp add: Let_def)

lemma time_keys:
  "truthyKey (timeKeyOf [''Time'', ''x'']) = Some ''Time''"
  "truthyKey (msKeyOf [''Time'', ''x'']) = None"
  by code_simp+

lemma blank_avg: "averageDelta N blankRows ''Time'' = Fin (1005 / 2)"
  by (simp add: averageDelta_def blankRows_def getProp_def coerceNumber_def roundDouble_exact)

text \<open>
  Claim C6.  With a time key, a row's parsed time value is meant to be divided by 1000
  exactly when a millisecond-marker key is present, or the value exceeds 50 and the mean
  absolute successive difference of the column exceeds 10.  In the column below the first
  time cell is blank and the parsed values are \<open>NaN\<close>, 1000 and 1005: the only successive
  difference is 5, and there is no marker key.  \<open>averageDelta\<close> coerces the blank cell to 0,
  where \<open>num\<close> gives \<open>NaN\<close>: its mean is (1000 + 5) / 2 = 502.5, and the rows 1000 and 1005 get
  the times 1 and 1.005 (the double nearest to it).
\<close>

theorem averageDelta_counts_blank_cell_as_zero:
  "map (\<lambda>r. num N (getProp r ''Time'')) blankRows = [NaN, Fin 1000, Fin 1005]
   \<and> truthyKey (timeKeyOf (map fst (hd blankRows))) = Some ''Time''
   \<and> truthyKey (msKeyOf (map fst (hd blankRows))) = None
   \<and> js_abs (js_sub (Fin 1005) (Fin 1000)) = Fin 5
   \<and> averageDelta N blankRows ''Time'' = Fin (1005 / 2)
   \<and> length (normalizeSheet N DP blankRows fps) = 3
   \<and> (normalizeSheet N DP blankRows fps ! 0) ''t'' = Some NaN
   \<and> (normalizeSheet N DP blankRows fps ! 1) ''t'' = Some (Fin 1)
   \<and> (normalizeSheet N DP blankRows fps ! 2) ''t''
        = Some (Fin (1131529406376837 / 1125899906842624))"
proof -
  let ?r0 = "[(''Time'', Null), (''x'', Num (Fin 1))]"
  let ?rest = "[[(''Time'', Num (Fin 1000)), (''x'', Num (Fin 2))],
      [(''Time'', Num (Fin 1005)), (''x'', Num (Fin 3))]]"
  have split: "blankRows = ?r0 # ?rest"
    by (simp add: blankRows_def)
  have ks: "map fst ?r0 = [''Time'', ''x'']" "map fst (hd blankRows) = [''Time'', ''x'']"
    by (simp_all add: blankRows_def)
  have g: "getProp (blankRows ! 0) ''Time'' = Null"
    "getProp (blankRows ! 1) ''Time'' = Num (Fin 1000)"
    "getProp (blankRows ! 2) ''Time'' = Num (Fin 1005)"
    by (simp_all add: blankRows_def getProp_def)
  have len: "length blankRows = 3"
    by (simp add: blankRows_def)
  have parsed: "map (\<lambda>r. num N (getProp r ''Time'')) blankRows = [NaN, Fin 1000, Fin 1005]"
    by (simp add: blankRows_def getProp_def)
  have t0: "(normalizeSheet N DP blankRows fps ! 0) ''t'' = Some NaN"
    using time_row [OF split, of "''Time''" 0 N DP fps]
    unfolding ks time_keys g by (simp add: len)
  have t1: "(normalizeSheet N DP blankRows fps ! 1) ''t'' = Some (Fin 1)"
    using time_column_row [OF split _ _ _ _ g(2) blank_avg, of N DP fps]
    unfolding ks by (simp add: time_keys len roundDouble_exact)
  have t2: "(normalizeSheet N DP blankRows fps ! 2) ''t''
              = Some (Fin (1131529406376837 / 1125899906842624))"
    using time_column_row [OF split _ _ _ _ g(3) blank_avg, of N DP fps]
    unfolding ks by (simp add: time_keys len roundDouble_inexact)
  show ?thesis
    unfolding ks using parsed time_keys blank_avg t0 t1 t2
    by (simp add: length_normalizeSheet len roundDouble_exact)
qed

text \<open>
  The column 0, 120, 240, 360 without a marker key has the mean 120: its rows get the
  times 0 and the doubles nearest to 0.12, 0.24 and 0.36.
\<close>

lemma ms_avg: "averageDelta N msRows ''Time'' = Fin 120"
  by (simp add: averageDelta_def msRows_def getProp_def coerceNumber_def roundDouble_exact)

lemma millisecond_column_example:
  "(normalizeSheet N DP msRows fps ! 0) ''t'' = Some (Fin 0)
   \<and> (normalizeSheet N DP msRows fps ! 1) ''t'' = Some (roundDouble (12 / 100))
   \<and> (normalizeSheet N DP msRows fps ! 2) ''t'' = Some (roundDouble (24 / 100))
   \<and> (normalizeSheet N DP msRows fps ! 3) ''t'' = Some (roundDouble (36 / 100))"
proof -
  let ?r0 = "[(''Time'', Num (Fin 0)), (''x'', Num (Fin 5))]"
  let ?rest = "[[(''Time'', Num (Fin 120)), (''x'', Num (Fin 6))],
      [(''Time'', Num (Fin 240)), (''x'', Num (Fin 7))],
      [(''Time'', Num (Fin 360)), (''x'', Num (Fin 8))]]"
  have split: "msRows = ?r0 # ?rest"
    by (simp add: msRows_def)
  have ks: "map fst ?r0 = [''Time'', ''x'']"
    by simp
  have len: "length msRows = 4"
    by (simp add: msRows_def)
  have g: "getProp (msRows ! 0) ''Time'' = Num (Fin 0)"
    "getProp (msRows ! 1) ''Time'' = Num (Fin 120)"
    "getProp (msRows ! 2) ''Time'' = Num (Fin 240)"
    "getProp (msRows ! 3) ''Time'' = Num (Fin 360)"
    by (simp_all add: msRows_def getProp_def)
  have step: "(normalizeSheet N DP msRows fps ! i) ''t''
                = Some (if x > 50 then roundDouble (x / 1000) else Fin x)"
    if "i < 4" "getProp (msRows ! i) ''Time'' = Num (Fin x)" for i x
    using time_column_row [OF split _ _ _ _ that(2) ms_avg, of N DP fps] that(1)
    unfolding ks by (simp add: time_keys len)
  show ?thesis
    using step [OF _ g(1)] step [OF _ g(2)] step [OF _ g(3)] step [OF _ g(4)] by simp
qed

lemma stamp_keys:
  "truthyKey (timeKeyOf [''Timestamp'', ''x'']) = Some ''Timestamp''"
  "truthyKey (msKeyOf [''Timestamp'', ''x'']) = None"
  "frameKeyOf [''Timestamp'', ''x''] = None"
  "find re_t_time [''Timestamp'', ''x''] = None"
  "list_ex re_timestamp [''Timestamp'', ''x'']"
  by code_simp+

lemma stamp_avg: "averageDelta N stampRows ''Timestamp'' = Fin 1000"
  by (simp add: averageDelta_def stampRows_def getProp_def coerceNumber_def roundDouble_exact)

text \<open>
  Claim C7.  A sheet with a timestamp column, no \<open>t\<close>/\<open>time\<close> column and no frame column is
  meant to get times relative to the first timestamp, divided by 1000.  By
  \<open>timestamp_key_is_time_key\<close> the timestamp column is the time key, so the branch that
  subtracts the first timestamp is never reached.  For the timestamps 1000 and 2000 the
  rows get the times 1 and 2, not 0 and 1.
\<close>

theorem timestamp_column_is_not_rebased:
  "find re_t_time (map fst (hd stampRows)) = None
   \<and> frameKeyOf (map fst (hd stampRows)) = None
   \<and> list_ex re_timestamp (map fst (hd stampRows))
   \<and> length (normalizeSheet N DP stampRows fps) = 2
   \<and> (normalizeSheet N DP stampRows fps ! 0) ''t'' = Some (Fin 1)
   \<and> (normalizeSheet N DP stampRows fps ! 1) ''t'' = Some (Fin 2)"
proof -
  let ?r0 = "[(''Timestamp'', Num (Fin 1000)), (''x'', Num (Fin 1))]"
  let ?rest = "[[(''Timestamp'', Num (Fin 2000)), (''x'', Num (Fin 2))]]"
  have split: "stampRows = ?r0 # ?rest"
    by (simp add: stampRows_def)
  have ks: "map fst ?r0 = [''Timestamp'', ''x'']" "map fst (hd stampRows) = [''Timestamp'', ''x'']"
    by (simp_all add: stampRows_def)
  have g: "getProp (stampRows ! 0) ''Timestamp'' = Num (Fin 1000)"
    "getProp (stampRows ! 1) ''Timestamp'' = Num (Fin 2000)"
    by (simp_all add: stampRows_def getProp_def)
  have len: "length stampRows = 2"
    by (simp add: stampRows_def)
  have t0: "(normalizeSheet N DP stampRows fps ! 0) ''t'' = Some (Fin 1)"
    using time_column_row [OF split _ _ _ _ g(1) stamp_avg, of N DP fps]
    unfolding ks by (simp add: stamp_keys len roundDouble_exact)
  have t1: "(normalizeSheet N DP stampRows fps ! 1) ''t'' = Some (Fin 2)"
    using time_column_row [OF split _ _ _ _ g(2) stamp_avg, of N DP fps]
    unfolding ks by (simp add: stamp_keys len roundDouble_exact)
  show ?thesis
    unfolding ks using stamp_keys t0 t1 by (simp add: length_normalizeSheet len)
qed

end
